theory Spec2Isabelle
  imports Main "HOL-Library.Multiset"
begin

section \<open>react-true-table: the data model of \<^verbatim>\<open>src/table.jsx\<close>\<close>

text \<open>
  The component is embedded as pure functions over explicit values.
  \<^item> A JavaScript string that may be \<^verbatim>\<open>undefined\<close> is a \<open>string option\<close>; the
    code tests sort ids by truthiness, so \<open>None\<close> and the empty string are both falsy.
  \<^item> A prop that holds a function or \<^verbatim>\<open>undefined\<close>/\<^verbatim>\<open>null\<close> is an option of a
    HOL function.
  \<^item> An exception is the \<open>Inl\<close> branch of a sum; a component's mutable fields are a
    record that every method takes and returns.
  \<^item> Props records hold the props as the constructors receive them, that is after the
    framework has filled in \<^verbatim>\<open>defaultProps\<close>.
  \<^item> The \<^verbatim>\<open>children\<close> prop is the JavaScript value an element carries: nothing, a
    single child, or an array whose entries may be anything.
  \<^item> Functions of the host (\<^verbatim>\<open>React.Children.map\<close>, the library's \<^verbatim>\<open>_.map\<close>,
    \<^verbatim>\<open>Array.prototype.sort\<close>, property access on a plain object) are not part of the
    repository; they are modelled from their documented behaviour, and the sort is a
    parameter.
  \<^item> A data row handed to a callback is a \<open>'row option\<close>: \<open>None\<close> is the
    \<^verbatim>\<open>undefined\<close> that an index outside the dataset reads.
\<close>

subsection \<open>Values\<close>

datatype error = TypeError string | Error string

text \<open>JavaScript truthiness of an optional string.\<close>

fun truthy :: "string option \<Rightarrow> bool" where
  "truthy None = False"
| "truthy (Some s) = (s \<noteq> [])"

text \<open>React nodes, as far as the component builds them itself.\<close>

datatype node = Undefined | Text string | Fragment "node list"

text \<open>
  Values of element attributes. \<open>SortBy s\<close> is the click handler
  \<^verbatim>\<open>() => this.table.sortBy(s)\<close>.
\<close>

datatype attr = Num int | Str string | Bool bool | SortBy string

type_synonym attrs = "string \<rightharpoonup> attr"

text \<open>An index into the dataset: a position of an array or a key of a mapping.\<close>

datatype index = Pos nat | Key string

datatype 'row dataset = ArrayData "'row list" | MapData "(string \<times> 'row) list"

text \<open>
  The value \<^verbatim>\<open>isSorted\<close> returns: \<^verbatim>\<open>sort && (sort === sortId)\<close> is the falsy
  \<^verbatim>\<open>sort\<close> itself, or the boolean of the comparison.
\<close>

datatype sort_flag = Falsy "string option" | Flag bool

subsection \<open>Arguments of the user-supplied hooks\<close>

record 'row sort_args =
  sa_a :: "'row option"
  sa_b :: "'row option"
  sa_descending :: bool

record header_args =
  ha_colIndex :: nat
  ha_groupIndex :: "nat option"
  ha_sort :: sort_flag
  ha_descending :: bool

record 'row cell_args =
  ca_row :: "'row option"
  ca_rowIndex :: "index option"
  ca_colIndex :: nat
  ca_groupIndex :: "nat option"

text \<open>
  \<^verbatim>\<open>Group.renderCell\<close> hands the group's \<^verbatim>\<open>tdProps\<close> the column index under the name
  \<^verbatim>\<open>columnIndex\<close>.
\<close>

record 'row group_cell_args =
  gca_row :: "'row option"
  gca_rowIndex :: "index option"
  gca_columnIndex :: nat
  gca_groupIndex :: "nat option"

record ('row, 'v) render_args =
  ra_row :: "'row option"
  ra_value :: 'v
  ra_rowIndex :: "index option"
  ra_colIndex :: nat
  ra_groupIndex :: "nat option"

record sorting_args =
  so_cell :: node
  so_descending :: bool

subsection \<open>Props of columns, groups and the table\<close>

text \<open>
  The comparator receives \<^verbatim>\<open>{a, b, descending, column: this}\<close>. The column is always
  the instance that owns the comparator, so the comparator of a props record is the
  function of the other three fields; \<open>defaultSort\<close> takes the column's value accessor
  explicitly.
\<close>

record ('row, 'v) column_props =
  c_header :: node
  c_value :: "'row option \<Rightarrow> 'v"
  c_render :: "('row, 'v) render_args \<Rightarrow> node"
  c_key :: "'row cell_args \<Rightarrow> attr"
  c_sortId :: "string option"
  c_sortMethod :: "('row sort_args \<Rightarrow> int) option"
  c_hidden :: bool
  c_headerProps :: "header_args \<Rightarrow> attrs"
  c_tdProps :: "'row cell_args \<Rightarrow> attrs"

text \<open>The props of a group without \<^verbatim>\<open>children\<close>, which the element carries beside them.\<close>

record 'row group_props =
  g_header :: node
  g_key :: "'row cell_args \<Rightarrow> attr"
  g_sortId :: "string option"
  g_sortMethod :: "('row sort_args \<Rightarrow> int) option"
  g_headerProps :: "header_args \<Rightarrow> attrs"
  g_subHeaderProps :: "header_args \<Rightarrow> attrs"
  g_tdProps :: "'row group_cell_args \<Rightarrow> attrs"

text \<open>
  A value that can stand as a child: a primitive, a function or a symbol, a plain
  object (its enumerable own properties in order), an array, or a valid element whose
  type is \<^verbatim>\<open>Column\<close>, \<^verbatim>\<open>Group\<close> (with its \<^verbatim>\<open>children\<close> prop), a host tag such as
  \<^verbatim>\<open>'div'\<close>, or another component (with its name) whose instances are not columns.
  The \<^verbatim>\<open>children\<close> prop of an element is such a value too: \<^verbatim>\<open>undefined\<close> when the
  element has no child, the child itself when it has one, an array otherwise.
\<close>

datatype ('row, 'v) child =
    JNull
  | JUndefined
  | JBoolean bool
  | JNumber int
  | JString string
  | JFunction
  | JSymbol
  | JObject "(string \<times> ('row, 'v) child) list"
  | JArray "('row, 'v) child list"
  | ColumnEl "('row, 'v) column_props"
  | GroupEl "'row group_props" "('row, 'v) child"
  | HostEl string
  | ComponentEl string

text \<open>\<^verbatim>\<open>isValidElement\<close> and \<^verbatim>\<open>typeof\<close> on these values.\<close>

fun isValidElement :: "('row, 'v) child \<Rightarrow> bool" where
  "isValidElement (ColumnEl p) = True"
| "isValidElement (GroupEl p c) = True"
| "isValidElement (HostEl tag) = True"
| "isValidElement (ComponentEl name) = True"
| "isValidElement c = False"

fun typeof :: "('row, 'v) child \<Rightarrow> string" where
  "typeof JUndefined = ''undefined''"
| "typeof (JBoolean b) = ''boolean''"
| "typeof (JNumber n) = ''number''"
| "typeof (JString s) = ''string''"
| "typeof JFunction = ''function''"
| "typeof JSymbol = ''symbol''"
| "typeof c = ''object''"

text \<open>
  Instances. The back references \<^verbatim>\<open>table\<close> and \<^verbatim>\<open>group\<close> are not stored: the
  methods that use the table take it as an argument. \<^verbatim>\<open>Group extends Column\<close>, so the
  inherited methods are defined on both constructors.
\<close>

datatype ('row, 'v) inst =
    ColumnInst "('row, 'v) column_props"
  | GroupInst "'row group_props" "('row, 'v) column_props list"

text \<open>
  \<^verbatim>\<open>componentWillReceiveProps\<close> compares the \<^verbatim>\<open>children\<close> of two props objects by
  reference, so the props carry the identity of their children value beside the value.
\<close>

record ('row, 'v) table_props =
  data :: "'row dataset"
  p_sort :: "string option"
  p_descending :: bool
  p_renderSorting :: "sorting_args \<Rightarrow> node"
  children_ref :: nat
  children :: "('row, 'v) child"
  p_theadProps :: "unit \<Rightarrow> attrs"
  p_headerTrProps :: "unit \<Rightarrow> attrs"
  p_subHeaderTrProps :: "unit \<Rightarrow> attrs"
  p_trProps :: "('row option \<times> index) option \<Rightarrow> attrs"

text \<open>
  The registry \<^verbatim>\<open>sortMap\<close> is a plain object; the map holds its own properties.
\<close>

record ('row, 'v) table_state =
  s_sort :: "string option"
  s_descending :: bool
  s_columns :: "('row, 'v) inst list"

record ('row, 'v) table =
  props :: "('row, 'v) table_props"
  state :: "('row, 'v) table_state"
  sortMap :: "string \<rightharpoonup> ('row, 'v) inst"

subsection \<open>Defaults\<close>

definition emptyProps :: "'a \<Rightarrow> attrs" where
  "emptyProps x = Map.empty"

definition defaultSort :: "('row option \<Rightarrow> 'v::ord) \<Rightarrow> 'row sort_args \<Rightarrow> int" where
  "defaultSort column_value args =
     (let va = column_value (sa_a args); vb = column_value (sa_b args)
      in if va > vb then 1 else if va < vb then - 1 else 0)"

text \<open>The arrows are the UTF-8 bytes of U+2228 and U+2227.\<close>

definition defaultRenderSorting :: "sorting_args \<Rightarrow> node" where
  "defaultRenderSorting args =
     (let arrow = (if so_descending args
                   then [CHR 0xE2, CHR 0x88, CHR 0xA8]
                   else [CHR 0xE2, CHR 0x88, CHR 0xA7])
      in Fragment [so_cell args, Text '' '', Text arrow])"

subsection \<open>Methods that \<^verbatim>\<open>Column\<close> defines and \<^verbatim>\<open>Group\<close> inherits\<close>

fun inst_sortId :: "('row, 'v) inst \<Rightarrow> string option" where
  "inst_sortId (ColumnInst p) = c_sortId p"
| "inst_sortId (GroupInst p cs) = g_sortId p"

fun inst_sortMethod :: "('row, 'v) inst \<Rightarrow> ('row sort_args \<Rightarrow> int) option" where
  "inst_sortMethod (ColumnInst p) = c_sortMethod p"
| "inst_sortMethod (GroupInst p cs) = g_sortMethod p"

text \<open>
  \<^verbatim>\<open>sort(a, b, descending)\<close>. Calling a \<^verbatim>\<open>sortMethod\<close> that is not a function
  throws a TypeError.
\<close>

definition Column_sort ::
  "('row, 'v) inst \<Rightarrow> 'row option \<Rightarrow> 'row option \<Rightarrow> bool \<Rightarrow> error + int" where
  "Column_sort this a b descending =
     (let dir = (if descending then - 1 else 1)
      in case inst_sortMethod this of
           None \<Rightarrow> Inl (TypeError ''this.props.sortMethod is not a function'')
         | Some m \<Rightarrow>
             Inr (m \<lparr>sa_a = a, sa_b = b, sa_descending = descending\<rparr> * dir))"

definition isSorted :: "('row, 'v) inst \<Rightarrow> string option \<Rightarrow> sort_flag" where
  "isSorted this sort_id =
     (if truthy sort_id then Flag (sort_id = inst_sortId this) else Falsy sort_id)"

subsection \<open>The table's sort state\<close>

text \<open>
  A property key: \<^verbatim>\<open>undefined\<close> used as a key is the string \<^verbatim>\<open>"undefined"\<close>.
\<close>

fun prop_key :: "string option \<Rightarrow> string" where
  "prop_key None = ''undefined''"
| "prop_key (Some s) = s"

text \<open>
  \<^verbatim>\<open>setState\<close> is applied at once; when the framework schedules the update is outside
  the component. \<^verbatim>\<open>validateProps\<close> only writes a warning to the console, which is not
  part of the state, so the calls to it are left out.
\<close>

definition renderSorting :: "('row, 'v) table \<Rightarrow> string option \<Rightarrow> node \<Rightarrow> node" where
  "renderSorting t sortId cell =
     (if truthy sortId \<and> sortId = s_sort (state t)
      then p_renderSorting (props t)
             \<lparr>so_cell = cell, so_descending = s_descending (state t)\<rparr>
      else cell)"

definition sortBy :: "string option \<Rightarrow> bool option \<Rightarrow> ('row, 'v) table \<Rightarrow> ('row, 'v) table" where
  "sortBy sort_id descending t =
     (let descending' =
        (case descending of
           None \<Rightarrow> (if sort_id = s_sort (state t) then \<not> s_descending (state t) else False)
         | Some d \<Rightarrow> d)
      in t\<lparr>state := (state t)\<lparr>s_sort := sort_id, s_descending := descending'\<rparr>\<rparr>)"

subsection \<open>Construction and the sort registry\<close>

text \<open>
  The values that the library's \<^verbatim>\<open>_.map(collection, callback)\<close> hands to its callback,
  in order: the entries of an array, the characters of a string, the enumerable own
  properties of an object, and nothing for \<^verbatim>\<open>null\<close>, \<^verbatim>\<open>undefined\<close>, a number, a
  boolean, a function or a symbol. A valid element is an object: its first own property
  is the symbol \<^verbatim>\<open>$$typeof\<close>, on which the callback of the \<^verbatim>\<open>Group\<close> constructor
  throws, so the properties after it are never visited and are left out. (An object with
  a numeric \<^verbatim>\<open>length\<close> property is iterated by position; such objects are not among
  the values here.)
\<close>

fun lodash_map_values :: "('row, 'v) child \<Rightarrow> ('row, 'v) child list" where
  "lodash_map_values (JArray cs) = cs"
| "lodash_map_values (JString s) = map (\<lambda>c. JString [c]) s"
| "lodash_map_values (JObject kvs) = map snd kvs"
| "lodash_map_values (ColumnEl p) = [JSymbol]"
| "lodash_map_values (GroupEl p c) = [JSymbol]"
| "lodash_map_values (HostEl tag) = [JSymbol]"
| "lodash_map_values (ComponentEl name) = [JSymbol]"
| "lodash_map_values c = []"

text \<open>
  The callback of \<^verbatim>\<open>_.map(props.children, ...)\<close> in the \<^verbatim>\<open>Group\<close> constructor. The
  name of a host tag's type is \<^verbatim>\<open>undefined\<close>.
\<close>

fun Group_child :: "('row, 'v) child \<Rightarrow> error + ('row, 'v) column_props" where
  "Group_child (ColumnEl p) = Inr p"
| "Group_child (GroupEl p c) = Inl (TypeError ''Element <Group> not valid in <Group>'')"
| "Group_child (HostEl tag) = Inl (TypeError ''Element <undefined> not valid in <Group>'')"
| "Group_child (ComponentEl name) =
     Inl (TypeError (''Element <'' @ name @ ''> not valid in <Group>''))"
| "Group_child e = Inl (TypeError (''Node of type '' @ typeof e @ '' not valid in <Group>''))"

text \<open>The callback run over the values from left to right; the first throw ends it.\<close>

fun Group_callbacks :: "('row, 'v) child list \<Rightarrow> error + ('row, 'v) column_props list" where
  "Group_callbacks [] = Inr []"
| "Group_callbacks (e # es) =
     (case Group_child e of
        Inl err \<Rightarrow> Inl err
      | Inr c \<Rightarrow> (case Group_callbacks es of
                   Inl err \<Rightarrow> Inl err
                 | Inr cs \<Rightarrow> Inr (c # cs)))"

definition Group_columns :: "('row, 'v) child \<Rightarrow> error + ('row, 'v) column_props list" where
  "Group_columns children_prop = Group_callbacks (lodash_map_values children_prop)"

definition Group_new :: "'row group_props \<Rightarrow> ('row, 'v) child \<Rightarrow> error + ('row, 'v) inst" where
  "Group_new p children_prop =
     (case Group_columns children_prop of
        Inl err \<Rightarrow> Inl err
      | Inr cs \<Rightarrow>
          if truthy (g_sortId p) \<and> g_sortMethod p = None
          then Inl (Error ''sortMethod is required for sortable <Group>'')
          else Inr (GroupInst p cs))"

text \<open>
  \<^verbatim>\<open>sortMap[key] = instance\<close> on the plain object: the key \<^verbatim>\<open>__proto__\<close> sets the
  prototype of the object and creates no own property; every other key becomes an own
  property.
\<close>

definition sortMap_assign ::
  "string \<Rightarrow> ('row, 'v) inst \<Rightarrow> (string \<rightharpoonup> ('row, 'v) inst) \<Rightarrow> (string \<rightharpoonup> ('row, 'v) inst)" where
  "sortMap_assign k i sm = (if k = ''__proto__'' then sm else sm(k \<mapsto> i))"

text \<open>
  \<^verbatim>\<open>Column.registerSortColumns\<close> tests and uses \<^verbatim>\<open>this.props.sortId\<close>.
\<close>

definition Column_registerSortColumns ::
  "('row, 'v) column_props \<Rightarrow> (string \<rightharpoonup> ('row, 'v) inst) \<Rightarrow> (string \<rightharpoonup> ('row, 'v) inst)" where
  "Column_registerSortColumns p sm =
     (if truthy (c_sortId p) \<and> c_sortMethod p \<noteq> None
      then sortMap_assign (prop_key (c_sortId p)) (ColumnInst p) sm
      else sm)"

text \<open>
  \<^verbatim>\<open>Group.registerSortColumns\<close> tests and uses \<^verbatim>\<open>this.sortId\<close>, a field of the
  instance itself. No constructor assigns it (\<^verbatim>\<open>Column\<close> sets \<^verbatim>\<open>props\<close>,
  \<^verbatim>\<open>table\<close> and \<^verbatim>\<open>group\<close>, \<^verbatim>\<open>Group\<close> adds \<^verbatim>\<open>columns\<close>), so it reads
  \<^verbatim>\<open>undefined\<close>.
\<close>

definition Group_this_sortId :: "'row group_props \<Rightarrow> ('row, 'v) column_props list \<Rightarrow> string option" where
  "Group_this_sortId p cs = None"

definition Group_registerSortColumns ::
  "'row group_props \<Rightarrow> ('row, 'v) column_props list \<Rightarrow>
   (string \<rightharpoonup> ('row, 'v) inst) \<Rightarrow> (string \<rightharpoonup> ('row, 'v) inst)" where
  "Group_registerSortColumns p cs sm =
     (let sm' = (if truthy (Group_this_sortId p cs)
                 then sortMap_assign (prop_key (Group_this_sortId p cs)) (GroupInst p cs) sm
                 else sm)
      in fold Column_registerSortColumns cs sm')"

fun registerSortColumns ::
  "('row, 'v) inst \<Rightarrow> (string \<rightharpoonup> ('row, 'v) inst) \<Rightarrow> (string \<rightharpoonup> ('row, 'v) inst)" where
  "registerSortColumns (ColumnInst p) sm = Column_registerSortColumns p sm"
| "registerSortColumns (GroupInst p cs) sm = Group_registerSortColumns p cs sm"

text \<open>
  The callback of \<^verbatim>\<open>Table.updateColumns\<close> up to the registration: the
  \<^verbatim>\<open>isValidElement\<close> test, \<^verbatim>\<open>new e.type(e.props, this)\<close> and the
  \<^verbatim>\<open>instanceof Column\<close> test. A host tag is a string, and \<^verbatim>\<open>new\<close> on a string throws
  a TypeError.
\<close>

fun Table_child :: "('row, 'v) child \<Rightarrow> error + ('row, 'v) inst" where
  "Table_child (ColumnEl p) = Inr (ColumnInst p)"
| "Table_child (GroupEl p c) = Group_new p c"
| "Table_child (HostEl tag) = Inl (TypeError ''e.type is not a constructor'')"
| "Table_child (ComponentEl name) =
     Inl (TypeError (''Element <'' @ name @ ''> not valid in <Table>''))"
| "Table_child e = Inl (TypeError (''Node of type '' @ typeof e @ '' not valid in <Table>''))"

text \<open>
  What \<^verbatim>\<open>React.Children.map(children, callback)\<close> does with a child, in traversal
  order: it hands a string, a number or an element to the callback, and \<^verbatim>\<open>null\<close> in
  place of \<^verbatim>\<open>null\<close>, \<^verbatim>\<open>undefined\<close> and booleans; it walks into arrays; it passes
  over functions and symbols without calling the callback; and on a plain object it
  throws its own \<^verbatim>\<open>Error\<close> (\<^verbatim>\<open>Objects are not valid as a React child\<close>, followed by a
  description of the object). When \<^verbatim>\<open>children\<close> itself is \<^verbatim>\<open>null\<close> or
  \<^verbatim>\<open>undefined\<close> it returns that value and calls nothing.
\<close>

datatype ('row, 'v) call = Handed "('row, 'v) child" | Refused

fun children_calls :: "('row, 'v) child \<Rightarrow> ('row, 'v) call list" where
  "children_calls (JArray cs) = concat (map children_calls cs)"
| "children_calls JFunction = []"
| "children_calls JSymbol = []"
| "children_calls (JObject kvs) = [Refused]"
| "children_calls JNull = [Handed JNull]"
| "children_calls JUndefined = [Handed JNull]"
| "children_calls (JBoolean b) = [Handed JNull]"
| "children_calls c = [Handed c]"

fun Children_map_calls :: "('row, 'v) child \<Rightarrow> ('row, 'v) call list" where
  "Children_map_calls JNull = []"
| "Children_map_calls JUndefined = []"
| "Children_map_calls c = children_calls c"

text \<open>
  The traversal with the callback of \<^verbatim>\<open>updateColumns\<close>: each instance registers
  itself before the next child is looked at, so a throw leaves the registrations made
  so far in the registry. The instances returned are not elements, so the result is the
  list of them; the \<^verbatim>\<open>null\<close> returned for missing children is the empty list, which
  is how every reader of the columns state treats it.
\<close>

fun updateColumns_calls ::
  "('row, 'v) call list \<Rightarrow> (string \<rightharpoonup> ('row, 'v) inst) \<Rightarrow>
   (error + ('row, 'v) inst list) \<times> (string \<rightharpoonup> ('row, 'v) inst)" where
  "updateColumns_calls [] sm = (Inr [], sm)"
| "updateColumns_calls (Refused # cs) sm =
     (Inl (Error ''Objects are not valid as a React child''), sm)"
| "updateColumns_calls (Handed e # cs) sm =
     (case Table_child e of
        Inl err \<Rightarrow> (Inl err, sm)
      | Inr i \<Rightarrow>
          (case updateColumns_calls cs (registerSortColumns i sm) of
             (Inl err, sm') \<Rightarrow> (Inl err, sm')
           | (Inr is, sm') \<Rightarrow> (Inr (i # is), sm')))"

definition updateColumns_map ::
  "('row, 'v) child \<Rightarrow> (string \<rightharpoonup> ('row, 'v) inst) \<Rightarrow>
   (error + ('row, 'v) inst list) \<times> (string \<rightharpoonup> ('row, 'v) inst)" where
  "updateColumns_map children_prop sm = updateColumns_calls (Children_map_calls children_prop) sm"

definition updateColumns ::
  "('row, 'v) child \<Rightarrow> ('row, 'v) table \<Rightarrow> (error + ('row, 'v) inst list) \<times> ('row, 'v) table" where
  "updateColumns children_prop t =
     (case updateColumns_map children_prop Map.empty of
        (r, sm) \<Rightarrow> (r, t\<lparr>sortMap := sm\<rparr>))"

text \<open>
  \<^verbatim>\<open>componentWillReceiveProps\<close>: the result is the exception thrown, if any, and the
  component afterwards. The framework replaces \<^verbatim>\<open>this.props\<close> after the call.
\<close>

definition componentWillReceiveProps ::
  "('row, 'v) table_props \<Rightarrow> ('row, 'v) table \<Rightarrow> error option \<times> ('row, 'v) table" where
  "componentWillReceiveProps new_props t =
     (if children_ref (props t) \<noteq> children_ref new_props
      then (case updateColumns (children new_props) t of
              (Inl err, t') \<Rightarrow> (Some err, t')
            | (Inr cols, t') \<Rightarrow> (None, t'\<lparr>state := (state t')\<lparr>s_columns := cols\<rparr>\<rparr>))
      else (None, t))"

text \<open>
  The constructor of the table. The framework's base class sets \<^verbatim>\<open>this.props\<close>; the
  state is built from the props and from what \<^verbatim>\<open>updateColumns\<close> returns, which starts
  from the empty registry. A throw of \<^verbatim>\<open>updateColumns\<close> leaves the constructor.
\<close>

definition Table_new :: "('row, 'v) table_props \<Rightarrow> error + ('row, 'v) table" where
  "Table_new p =
     (case updateColumns_map (children p) Map.empty of
        (Inl err, sm) \<Rightarrow> Inl err
      | (Inr cols, sm) \<Rightarrow>
          Inr \<lparr>props = p,
               state = \<lparr>s_sort = p_sort p, s_descending = p_descending p, s_columns = cols\<rparr>,
               sortMap = sm\<rparr>)"

subsection \<open>Rendering the header\<close>

text \<open>
  A rendered cell is the JSX expression \<^verbatim>\<open><th key={key} {...props}>{cell}</th>\<close> (or
  \<^verbatim>\<open>td\<close>): its tag, its key attribute, the props spread into it and its content.
  \<open>None\<close> is \<^verbatim>\<open>null\<close>. A props hook returns a new object on every call, as
  \<open>emptyProps\<close> does, so assigning to the object is an update of a map;
  \<^verbatim>\<open>{...x, ...y}\<close> is \<open>x ++ y\<close>.
\<close>

record cell_element =
  e_tag :: string
  e_key :: attr
  e_attrs :: attrs
  e_content :: node

record row_element =
  r_attrs :: attrs
  r_cells :: "cell_element option list"

record thead_element =
  h_attrs :: attrs
  h_main :: row_element
  h_sub :: "row_element option"

text \<open>What \<^verbatim>\<open>renderHeader\<close> of a child of the table returns: one cell or an array.\<close>

datatype header_cells = Single "cell_element option" | Multi "cell_element option list"

definition Column_renderHeader ::
  "('row, 'v) table \<Rightarrow> ('row, 'v) column_props \<Rightarrow> nat \<Rightarrow> string option \<Rightarrow> bool \<Rightarrow>
   nat option \<Rightarrow> attrs option \<Rightarrow> cell_element option" where
  "Column_renderHeader t p colIndex sort_id descending groupIndex groupProps =
     (if c_hidden p then None
      else
        let props0 = c_headerProps p
              \<lparr>ha_colIndex = colIndex, ha_groupIndex = groupIndex,
               ha_sort = isSorted (ColumnInst p) sort_id, ha_descending = descending\<rparr>;
            props1 = (case groupProps of None \<Rightarrow> props0 | Some gp \<Rightarrow> gp ++ props0);
            props2 = (if groupIndex = None then props1(''rowSpan'' \<mapsto> Num 2) else props1);
            props3 = (if truthy (c_sortId p)
                      then props2(''onClick'' \<mapsto> SortBy (prop_key (c_sortId p)))
                      else props2);
            key = c_key p \<lparr>ca_row = None, ca_rowIndex = None,
                            ca_colIndex = colIndex, ca_groupIndex = groupIndex\<rparr>;
            cell = renderSorting t (c_sortId p) (c_header p)
        in Some \<lparr>e_tag = ''th'', e_key = key, e_attrs = props3, e_content = cell\<rparr>)"

definition Group_renderHeader ::
  "('row, 'v) table \<Rightarrow> 'row group_props \<Rightarrow> ('row, 'v) column_props list \<Rightarrow> nat \<Rightarrow>
   string option \<Rightarrow> bool \<Rightarrow> cell_element option list" where
  "Group_renderHeader t p cs colIndex sort_id descending =
     (let props0 = g_headerProps p
            \<lparr>ha_colIndex = colIndex, ha_groupIndex = None,
             ha_sort = isSorted (GroupInst p cs) sort_id, ha_descending = descending\<rparr>;
          props1 = props0(''colSpan'' \<mapsto> Num (int (length cs)));
          props2 = (if truthy (g_sortId p)
                    then props1(''onClick'' \<mapsto> SortBy (prop_key (g_sortId p)))
                    else props1);
          key = g_key p \<lparr>ca_row = None, ca_rowIndex = None,
                          ca_colIndex = colIndex, ca_groupIndex = None\<rparr>;
          cell = renderSorting t (g_sortId p) (g_header p)
      in Some \<lparr>e_tag = ''th'', e_key = key, e_attrs = props2, e_content = cell\<rparr> #
         map (\<lambda>(groupIndex, c).
                let groupProps = g_subHeaderProps p
                      \<lparr>ha_colIndex = colIndex, ha_groupIndex = Some groupIndex,
                       ha_sort = isSorted (ColumnInst c) sort_id, ha_descending = descending\<rparr>
                in Column_renderHeader t c colIndex sort_id descending
                     (Some groupIndex) (Some groupProps))
             (enumerate 0 cs))"

fun renderHeader ::
  "('row, 'v) table \<Rightarrow> ('row, 'v) inst \<Rightarrow> nat \<Rightarrow> string option \<Rightarrow> bool \<Rightarrow> header_cells" where
  "renderHeader t (ColumnInst p) colIndex sort_id descending =
     Single (Column_renderHeader t p colIndex sort_id descending None None)"
| "renderHeader t (GroupInst p cs) colIndex sort_id descending =
     Multi (Group_renderHeader t p cs colIndex sort_id descending)"

text \<open>\<^verbatim>\<open>c[0]\<close> of an empty array is \<^verbatim>\<open>undefined\<close>, which renders like \<^verbatim>\<open>null\<close>.\<close>

fun main_cell :: "header_cells \<Rightarrow> cell_element option" where
  "main_cell (Single e) = e"
| "main_cell (Multi []) = None"
| "main_cell (Multi (x # xs)) = x"

fun sub_cells :: "header_cells \<Rightarrow> cell_element option list" where
  "sub_cells (Single e) = []"
| "sub_cells (Multi xs) = drop 1 xs"

definition renderMainHeader :: "('row, 'v) table \<Rightarrow> header_cells list \<Rightarrow> row_element" where
  "renderMainHeader t cells =
     (let rowCells = map main_cell cells;
          props = p_trProps (props t) None ++ p_headerTrProps (props t) ()
      in \<lparr>r_attrs = props, r_cells = rowCells\<rparr>)"

definition renderSubHeader :: "('row, 'v) table \<Rightarrow> header_cells list \<Rightarrow> row_element option" where
  "renderSubHeader t cells =
     (let rowCells = concat (map sub_cells cells)
      in if length rowCells = 0 then None
         else
           let props = p_trProps (props t) None ++ p_subHeaderTrProps (props t) ()
           in Some \<lparr>r_attrs = props, r_cells = rowCells\<rparr>)"

definition header_cells_of :: "('row, 'v) table \<Rightarrow> header_cells list" where
  "header_cells_of t =
     map (\<lambda>(colIndex, c). renderHeader t c colIndex (s_sort (state t)) (s_descending (state t)))
         (enumerate 0 (s_columns (state t)))"

definition Table_renderHeader :: "('row, 'v) table \<Rightarrow> thead_element" where
  "Table_renderHeader t =
     (let cells = header_cells_of t;
          theadProps = p_theadProps (props t) ()
      in \<lparr>h_attrs = theadProps,
          h_main = renderMainHeader t cells,
          h_sub = renderSubHeader t cells\<rparr>)"

subsection \<open>Rendering data cells\<close>

definition Column_renderCell ::
  "('row, 'v) column_props \<Rightarrow> 'row option \<Rightarrow> index \<Rightarrow> nat \<Rightarrow> nat option \<Rightarrow>
   attrs option \<Rightarrow> cell_element option" where
  "Column_renderCell p row rowIndex colIndex groupIndex groupProps =
     (if c_hidden p then None
      else
        let args = \<lparr>ca_row = row, ca_rowIndex = Some rowIndex,
                    ca_colIndex = colIndex, ca_groupIndex = groupIndex\<rparr>;
            props0 = c_tdProps p args;
            props1 = (case groupProps of None \<Rightarrow> props0 | Some gp \<Rightarrow> gp ++ props0);
            key = c_key p args;
            cell = c_render p
              \<lparr>ra_row = row, ra_value = c_value p row, ra_rowIndex = Some rowIndex,
               ra_colIndex = colIndex, ra_groupIndex = groupIndex\<rparr>
        in Some \<lparr>e_tag = ''td'', e_key = key, e_attrs = props1, e_content = cell\<rparr>)"

definition Group_renderCell ::
  "'row group_props \<Rightarrow> ('row, 'v) column_props list \<Rightarrow> 'row option \<Rightarrow> index \<Rightarrow> nat \<Rightarrow>
   cell_element option list" where
  "Group_renderCell p cs row rowIndex columnIndex =
     map (\<lambda>(groupIndex, c).
            let groupProps = g_tdProps p
                  \<lparr>gca_row = row, gca_rowIndex = Some rowIndex,
                   gca_columnIndex = columnIndex, gca_groupIndex = Some groupIndex\<rparr>
            in Column_renderCell c row rowIndex columnIndex (Some groupIndex) (Some groupProps))
         (enumerate 0 cs)"

subsection \<open>Sorted row order\<close>

text \<open>
  \<^verbatim>\<open>_.map(data, (value, index) => index)\<close>: the positions of an array, or the keys of
  a mapping in enumeration order. The association list holds each key once, and the
  mapping is a plain object without a numeric \<^verbatim>\<open>length\<close> property, which would make
  the library iterate it like an array.
\<close>

fun data_indexes :: "'row dataset \<Rightarrow> index list" where
  "data_indexes (ArrayData rows) = map Pos [0 ..< length rows]"
| "data_indexes (MapData kvs) = map (\<lambda>kv. Key (fst kv)) kvs"

text \<open>
  \<^verbatim>\<open>data[index]\<close>. Reading outside the dataset gives \<^verbatim>\<open>undefined\<close>; the code only
  reads at indexes that \<open>data_indexes\<close> produced.
\<close>

fun data_at :: "'row dataset \<Rightarrow> index \<Rightarrow> 'row option" where
  "data_at (ArrayData rows) (Pos i) = (if i < length rows then Some (rows ! i) else None)"
| "data_at (ArrayData rows) (Key k) = None"
| "data_at (MapData kvs) (Key k) = map_of kvs k"
| "data_at (MapData kvs) (Pos i) = None"

text \<open>
  \<^verbatim>\<open>Array.prototype.sort\<close> with a comparator belongs to the host language, and engines
  implement it differently. It is a parameter of \<open>sortedDataIndexes\<close>: a function from
  the comparator and the array to the sorted array, or to the exception that the
  comparator threw.
\<close>

type_synonym 'a host_sort = "('a \<Rightarrow> 'a \<Rightarrow> error + int) \<Rightarrow> 'a list \<Rightarrow> error + 'a list"

text \<open>
  \<^verbatim>\<open>sortedDataIndexes\<close>. The registry is asked through its own method
  \<^verbatim>\<open>this.sortMap.hasOwnProperty\<close>: when a column is registered under the key
  \<^verbatim>\<open>hasOwnProperty\<close>, that property is the column, and calling it throws a TypeError.
\<close>

definition sortedDataIndexes :: "index host_sort \<Rightarrow> ('row, 'v) table \<Rightarrow> error + index list" where
  "sortedDataIndexes array_prototype_sort t =
     (let indexes = data_indexes (data (props t))
      in if sortMap t ''hasOwnProperty'' \<noteq> None
         then Inl (TypeError ''this.sortMap.hasOwnProperty is not a function'')
         else
           case sortMap t (prop_key (s_sort (state t))) of
             None \<Rightarrow> Inr indexes
           | Some column \<Rightarrow>
               array_prototype_sort
                 (\<lambda>a b. Column_sort column (data_at (data (props t)) a)
                          (data_at (data (props t)) b) (s_descending (state t)))
                 indexes)"

text \<open>
  The language's condition on a comparator for a set of values (a consistent comparison
  function): a value compares equal to itself, comparing equal is symmetric and
  transitive, and comparing less and comparing greater are transitive.
\<close>

definition consistent_comparator :: "('a \<Rightarrow> 'a \<Rightarrow> int) \<Rightarrow> 'a list \<Rightarrow> bool" where
  "consistent_comparator f xs \<longleftrightarrow>
     (\<forall>x \<in> set xs. f x x = 0) \<and>
     (\<forall>x \<in> set xs. \<forall>y \<in> set xs. f x y = 0 \<longrightarrow> f y x = 0) \<and>
     (\<forall>x \<in> set xs. \<forall>y \<in> set xs. \<forall>z \<in> set xs. f x y = 0 \<and> f y z = 0 \<longrightarrow> f x z = 0) \<and>
     (\<forall>x \<in> set xs. \<forall>y \<in> set xs. \<forall>z \<in> set xs. f x y < 0 \<and> f y z < 0 \<longrightarrow> f x z < 0) \<and>
     (\<forall>x \<in> set xs. \<forall>y \<in> set xs. \<forall>z \<in> set xs. f x y > 0 \<and> f y z > 0 \<longrightarrow> f x z > 0)"

text \<open>
  What the language promises of \<^verbatim>\<open>sort\<close> when the comparator returns numbers: the
  result holds the same elements, and when the comparator is consistent for them, no
  element stands behind one that it compares less than. For other comparators the order
  is left to the engine.
\<close>

definition sorts_as_specified :: "'a host_sort \<Rightarrow> bool" where
  "sorts_as_specified array_prototype_sort \<longleftrightarrow>
     (\<forall>f xs. \<exists>ys. array_prototype_sort (\<lambda>x y. Inr (f x y)) xs = Inr ys \<and>
        mset ys = mset xs \<and>
        (consistent_comparator f xs \<longrightarrow> sorted_wrt (\<lambda>x y. \<not> f y x < 0) ys))"



subsection \<open>Predicates used in the statements\<close>

text \<open>The children a \<^verbatim>\<open>Group\<close> accepts, and the children a \<^verbatim>\<open>Table\<close> constructs.\<close>

fun is_Column_element :: "('row, 'v) child \<Rightarrow> bool" where
  "is_Column_element (ColumnEl p) = True"
| "is_Column_element e = False"

fun is_Column_or_Group_element :: "('row, 'v) child \<Rightarrow> bool" where
  "is_Column_or_Group_element (ColumnEl p) = True"
| "is_Column_or_Group_element (GroupEl p c) = True"
| "is_Column_or_Group_element e = False"

text \<open>A step of the traversal that ends with an instance.\<close>

fun constructs :: "('row, 'v) call \<Rightarrow> bool" where
  "constructs Refused = False"
| "constructs (Handed e) = (case Table_child e of Inl err \<Rightarrow> False | Inr i \<Rightarrow> True)"

text \<open>
  What an entry of the sort registry under key \<open>k\<close> can be: a column whose truthy sort
  id is \<open>k\<close> and which has a comparator.
\<close>

fun registered_column :: "string \<Rightarrow> ('row, 'v) inst \<Rightarrow> bool" where
  "registered_column k (ColumnInst p) =
     (truthy (c_sortId p) \<and> c_sortId p = Some k \<and> c_sortMethod p \<noteq> None)"
| "registered_column k (GroupInst p cs) = False"

text \<open>The child columns of an instance, hidden ones included.\<close>

fun child_columns :: "('row, 'v) inst \<Rightarrow> ('row, 'v) column_props list" where
  "child_columns (ColumnInst p) = []"
| "child_columns (GroupInst p cs) = cs"

text \<open>
  The comparison that \<^verbatim>\<open>sortedDataIndexes\<close> hands to the sort, for a comparator
  \<open>m\<close>: \<open>m\<close> on the rows at two indexes with the current flag, times the direction.
\<close>

definition row_cmp :: "('row, 'v) table \<Rightarrow> ('row sort_args \<Rightarrow> int) \<Rightarrow> index \<Rightarrow> index \<Rightarrow> int" where
  "row_cmp t m x y =
     m \<lparr>sa_a = data_at (data (props t)) x, sa_b = data_at (data (props t)) y,
        sa_descending = s_descending (state t)\<rparr>
     * (if s_descending (state t) then - 1 else 1)"

text \<open>
  A list is ordered by a comparison when the comparison puts every element before or
  level with every element behind it.
\<close>

definition ordered_by :: "('a \<Rightarrow> 'a \<Rightarrow> int) \<Rightarrow> 'a list \<Rightarrow> bool" where
  "ordered_by f ys = sorted_wrt (\<lambda>x y. f x y \<le> 0) ys"


subsection \<open>Concrete columns, groups and tables\<close>

text \<open>Rows are integers; the value of a row is the row, and 0 for \<^verbatim>\<open>undefined\<close>.\<close>

definition row_value :: "int option \<Rightarrow> int" where
  "row_value r = (case r of None \<Rightarrow> 0 | Some n \<Rightarrow> n)"

definition a_column :: "string \<Rightarrow> string option \<Rightarrow> bool \<Rightarrow> (int, int) column_props" where
  "a_column label sid hid =
     \<lparr>c_header = Text label, c_value = row_value,
      c_render = (\<lambda>args. Text ''cell''),
      c_key = (\<lambda>args. Num (int (ca_colIndex args))),
      c_sortId = sid, c_sortMethod = Some (defaultSort row_value), c_hidden = hid,
      c_headerProps = emptyProps, c_tdProps = emptyProps\<rparr>"

definition a_group :: "string option \<Rightarrow> (int sort_args \<Rightarrow> int) option \<Rightarrow> int group_props" where
  "a_group sid sm =
     \<lparr>g_header = Text ''G'',
      g_key = (\<lambda>args. Num (int (ca_colIndex args))),
      g_sortId = sid, g_sortMethod = sm,
      g_headerProps = emptyProps, g_subHeaderProps = emptyProps, g_tdProps = emptyProps\<rparr>"

definition some_props :: "int dataset \<Rightarrow> nat \<Rightarrow> (int, int) child \<Rightarrow> (int, int) table_props" where
  "some_props d r c =
     \<lparr>data = d, p_sort = None, p_descending = False,
      p_renderSorting = defaultRenderSorting, children_ref = r, children = c,
      p_theadProps = emptyProps, p_headerTrProps = emptyProps,
      p_subHeaderTrProps = emptyProps, p_trProps = emptyProps\<rparr>"

definition a_table ::
  "int dataset \<Rightarrow> string option \<Rightarrow> bool \<Rightarrow> (int, int) inst list \<Rightarrow>
   (string \<rightharpoonup> (int, int) inst) \<Rightarrow> (int, int) table" where
  "a_table d s desc cols sm =
     \<lparr>props = some_props d 0 (JArray []),
      state = \<lparr>s_sort = s, s_descending = desc, s_columns = cols\<rparr>,
      sortMap = sm\<rparr>"

text \<open>A comparator that reads the \<^verbatim>\<open>descending\<close> field it is given.\<close>

definition flag_reading_method :: "int sort_args \<Rightarrow> int" where
  "flag_reading_method args = (if sa_descending args then 5 else 3)"

text \<open>A comparator that puts every row behind every row.\<close>

definition always_after :: "int sort_args \<Rightarrow> int" where
  "always_after args = 1"

section \<open>Properties\<close>

subsection \<open>Comparing rows\<close>

text \<open>
  C9 (amended). \<^verbatim>\<open>sort(a, b, descending)\<close> is the comparator's result times the
  direction, and the comparator is handed the \<^verbatim>\<open>descending\<close> flag. For a column or a
  group whose comparator returns the same number for \<^verbatim>\<open>a\<close> and \<^verbatim>\<open>b\<close> under both
  values of the flag, the descending comparison is the negation of the ascending one.
\<close>

theorem Column_sort_negation:
  assumes "inst_sortMethod this = Some m"
    and "m \<lparr>sa_a = a, sa_b = b, sa_descending = True\<rparr> =
         m \<lparr>sa_a = a, sa_b = b, sa_descending = False\<rparr>"
  shows "\<exists>r. Column_sort this a b False = Inr r \<and> Column_sort this a b True = Inr (- r)"
  using assms by (simp add: Column_sort_def)

theorem Column_sort_negation_witness:
  "inst_sortMethod (ColumnInst (a_column ''A'' (Some ''n'') False)) = Some (defaultSort row_value) \<and>
   (\<exists>r. Column_sort (ColumnInst (a_column ''A'' (Some ''n'') False)) (Some 1) (Some 2) False = Inr r \<and>
        Column_sort (ColumnInst (a_column ''A'' (Some ''n'') False)) (Some 1) (Some 2) True = Inr (- r))"
  using Column_sort_negation
    [of "ColumnInst (a_column ''A'' (Some ''n'') False)" "defaultSort row_value" "Some 1" "Some 2"]
  by (simp add: a_column_def defaultSort_def)

text \<open>
  A comparator that reads the flag breaks the negation: with \<open>flag_reading_method\<close> the
  descending comparison is \<open>- 5\<close> and the ascending one is \<open>3\<close>.
\<close>

theorem Column_sort_negation_counterexample:
  "Column_sort (ColumnInst ((a_column ''A'' (Some ''n'') False)
       \<lparr>c_sortMethod := Some flag_reading_method\<rparr>)) (Some 1) (Some 2) True = Inr (- 5) \<and>
   Column_sort (ColumnInst ((a_column ''A'' (Some ''n'') False)
       \<lparr>c_sortMethod := Some flag_reading_method\<rparr>)) (Some 1) (Some 2) False = Inr 3"
  by (simp add: Column_sort_def a_column_def flag_reading_method_def)

subsection \<open>The sort state\<close>

text \<open>
  C8. \<^verbatim>\<open>sortBy(s)\<close> with \<^verbatim>\<open>descending\<close> undefined sets the sort id to \<open>s\<close>; it flips
  the flag when \<open>s\<close> is the current sort id and clears it otherwise. \<^verbatim>\<open>sortBy(s, d)\<close>
  sets the pair to \<open>(s, d)\<close>. Columns, registry and props stay as they are.
\<close>

theorem sortBy_state:
  "s_sort (state (sortBy s None t)) = s \<and>
   (s = s_sort (state t) \<longrightarrow> s_descending (state (sortBy s None t)) = (\<not> s_descending (state t))) \<and>
   (s \<noteq> s_sort (state t) \<longrightarrow> s_descending (state (sortBy s None t)) = False) \<and>
   s_sort (state (sortBy s (Some d) t)) = s \<and>
   s_descending (state (sortBy s (Some d) t)) = d \<and>
   s_columns (state (sortBy s dopt t)) = s_columns (state t) \<and>
   sortMap (sortBy s dopt t) = sortMap t \<and>
   props (sortBy s dopt t) = props t"
  by (simp add: sortBy_def Let_def)

theorem sortBy_state_witness:
  "s_sort (state (sortBy (Some ''n'') None (a_table (ArrayData []) (Some ''n'') False [] Map.empty))) =
     Some ''n'' \<and>
   s_descending (state (sortBy (Some ''n'') None (a_table (ArrayData []) (Some ''n'') False [] Map.empty))) \<and>
   \<not> s_descending (state (sortBy (Some ''m'') None (a_table (ArrayData []) (Some ''n'') True [] Map.empty))) \<and>
   s_descending (state (sortBy (Some ''m'') (Some True) (a_table (ArrayData []) (Some ''n'') False [] Map.empty)))"
  using sortBy_state [of "Some ''n''" "a_table (ArrayData []) (Some ''n'') False [] Map.empty" True None]
    sortBy_state [of "Some ''m''" "a_table (ArrayData []) (Some ''n'') True [] Map.empty" True None]
    sortBy_state [of "Some ''m''" "a_table (ArrayData []) (Some ''n'') False [] Map.empty" True None]
  by (simp add: a_table_def)

subsection \<open>The sorting indicator\<close>

text \<open>
  C7. \<^verbatim>\<open>renderSorting(sortId, cell)\<close> applies the \<^verbatim>\<open>renderSorting\<close> hook to the cell
  and the current descending flag exactly when \<^verbatim>\<open>sortId\<close> is truthy and equal to the
  current sort id, and returns the cell unchanged otherwise. The header cell of a visible
  column and the header cell of a group hold the result for their own sort id.
\<close>

theorem renderSorting_indicator:
  "(truthy sortId \<and> sortId = s_sort (state t) \<longrightarrow>
      renderSorting t sortId cell =
        p_renderSorting (props t) \<lparr>so_cell = cell, so_descending = s_descending (state t)\<rparr>) \<and>
   (\<not> (truthy sortId \<and> sortId = s_sort (state t)) \<longrightarrow> renderSorting t sortId cell = cell) \<and>
   (\<not> c_hidden p \<longrightarrow>
      map_option e_content (Column_renderHeader t p colIndex sort_id descending groupIndex groupProps) =
        Some (renderSorting t (c_sortId p) (c_header p))) \<and>
   map_option e_content (main_cell (Multi (Group_renderHeader t g cs colIndex sort_id descending))) =
     Some (renderSorting t (g_sortId g) (g_header g))"
  by (auto simp add: renderSorting_def Column_renderHeader_def Group_renderHeader_def Let_def)

theorem renderSorting_indicator_witness:
  "renderSorting (a_table (ArrayData []) (Some ''n'') True [] Map.empty) (Some ''n'') (Text ''A'') =
     defaultRenderSorting \<lparr>so_cell = Text ''A'', so_descending = True\<rparr> \<and>
   renderSorting (a_table (ArrayData []) (Some ''n'') True [] Map.empty) (Some ''m'') (Text ''B'') =
     Text ''B'' \<and>
   renderSorting (a_table (ArrayData []) (Some []) True [] Map.empty) (Some []) (Text ''C'') =
     Text ''C'' \<and>
   map_option e_content
     (Column_renderHeader (a_table (ArrayData []) (Some ''n'') True [] Map.empty)
        (a_column ''A'' (Some ''n'') False) 0 (Some ''n'') True None None) =
     Some (defaultRenderSorting \<lparr>so_cell = Text ''A'', so_descending = True\<rparr>)"
proof -
  let ?t = "a_table (ArrayData []) (Some ''n'') True [] Map.empty"
  let ?e = "a_table (ArrayData []) (Some []) True [] Map.empty"
  let ?p = "a_column ''A'' (Some ''n'') False"
  let ?g = "a_group None None"
  have t: "s_sort (state ?t) = Some ''n''" "s_descending (state ?t)"
    "p_renderSorting (props ?t) = defaultRenderSorting"
    by (simp_all add: a_table_def some_props_def)
  have p: "\<not> c_hidden ?p" "c_sortId ?p = Some ''n''" "c_header ?p = Text ''A''"
    by (simp_all add: a_column_def)
  have a: "renderSorting ?t (Some ''n'') (Text ''A'') =
             defaultRenderSorting \<lparr>so_cell = Text ''A'', so_descending = True\<rparr>"
    using renderSorting_indicator [of "Some ''n''" ?t "Text ''A''" ?p 0 None True None None ?g "[]"] t
    by simp
  have b: "renderSorting ?t (Some ''m'') (Text ''B'') = Text ''B''"
    using renderSorting_indicator [of "Some ''m''" ?t "Text ''B''" ?p 0 None True None None ?g "[]"] t
    by simp
  have c: "renderSorting ?e (Some []) (Text ''C'') = Text ''C''"
    using renderSorting_indicator [of "Some []" ?e "Text ''C''" ?p 0 None True None None ?g "[]"]
    by simp
  have d: "map_option e_content (Column_renderHeader ?t ?p 0 (Some ''n'') True None None) =
             Some (renderSorting ?t (c_sortId ?p) (c_header ?p))"
    using renderSorting_indicator
      [of "Some ''n''" ?t "Text ''A''" ?p 0 "Some ''n''" True None None ?g "[]"] p(1)
    by simp
  from a b c d p show ?thesis by simp
qed

subsection \<open>Hidden columns\<close>

text \<open>
  C10. A column with \<^verbatim>\<open>hidden: true\<close> renders \<^verbatim>\<open>null\<close> as a header and as a data
  cell. Inside a group it still counts: the group's header cell has \<^verbatim>\<open>colSpan\<close> equal
  to the number of all child columns, and the arrays the group renders have one entry
  for every child column, the entry of child \<open>k\<close> rendered with group index \<open>k\<close> and
  the entry of the hidden child being \<^verbatim>\<open>null\<close>.
\<close>

theorem hidden_column:
  assumes "c_hidden p" and "j < length cs" and "cs ! j = p"
  shows "Column_renderHeader t p colIndex sort_id descending groupIndex groupProps = None \<and>
         Column_renderCell p row rowIndex colIndex groupIndex groupProps' = None \<and>
         (\<exists>th. main_cell (Multi (Group_renderHeader t g cs colIndex sort_id descending)) = Some th \<and>
               e_attrs th ''colSpan'' = Some (Num (int (length cs)))) \<and>
         length (Group_renderHeader t g cs colIndex sort_id descending) = Suc (length cs) \<and>
         Group_renderHeader t g cs colIndex sort_id descending ! Suc j = None \<and>
         (\<forall>k < length cs.
            Group_renderHeader t g cs colIndex sort_id descending ! Suc k =
              Column_renderHeader t (cs ! k) colIndex sort_id descending (Some k)
                (Some (g_subHeaderProps g
                   \<lparr>ha_colIndex = colIndex, ha_groupIndex = Some k,
                    ha_sort = isSorted (ColumnInst (cs ! k)) sort_id,
                    ha_descending = descending\<rparr>))) \<and>
         length (Group_renderCell g cs row rowIndex colIndex) = length cs \<and>
         Group_renderCell g cs row rowIndex colIndex ! j = None \<and>
         (\<forall>k < length cs.
            Group_renderCell g cs row rowIndex colIndex ! k =
              Column_renderCell (cs ! k) row rowIndex colIndex (Some k)
                (Some (g_tdProps g
                   \<lparr>gca_row = row, gca_rowIndex = Some rowIndex,
                    gca_columnIndex = colIndex, gca_groupIndex = Some k\<rparr>)))"
proof -
  have h: "Column_renderHeader t p colIndex sort_id descending gi gp = None" for gi gp
    using assms(1) by (simp add: Column_renderHeader_def)
  have c: "Column_renderCell p row rowIndex colIndex gi gp = None" for gi gp
    using assms(1) by (simp add: Column_renderCell_def)
  have span: "\<exists>th. main_cell (Multi (Group_renderHeader t g cs colIndex sort_id descending)) = Some th \<and>
               e_attrs th ''colSpan'' = Some (Num (int (length cs)))"
    by (simp add: Group_renderHeader_def Let_def)
  have len: "length (Group_renderHeader t g cs colIndex sort_id descending) = Suc (length cs)"
    by (simp add: Group_renderHeader_def Let_def)
  have nth_h: "Group_renderHeader t g cs colIndex sort_id descending ! Suc k =
              Column_renderHeader t (cs ! k) colIndex sort_id descending (Some k)
                (Some (g_subHeaderProps g
                   \<lparr>ha_colIndex = colIndex, ha_groupIndex = Some k,
                    ha_sort = isSorted (ColumnInst (cs ! k)) sort_id,
                    ha_descending = descending\<rparr>))" if "k < length cs" for k
    using that by (simp add: Group_renderHeader_def Let_def nth_enumerate_eq)
  have len_c: "length (Group_renderCell g cs row rowIndex colIndex) = length cs"
    by (simp add: Group_renderCell_def)
  have nth_c: "Group_renderCell g cs row rowIndex colIndex ! k =
              Column_renderCell (cs ! k) row rowIndex colIndex (Some k)
                (Some (g_tdProps g
                   \<lparr>gca_row = row, gca_rowIndex = Some rowIndex,
                    gca_columnIndex = colIndex, gca_groupIndex = Some k\<rparr>))" if "k < length cs" for k
    using that by (simp add: Group_renderCell_def Let_def nth_enumerate_eq)
  from nth_h [OF assms(2)] assms(3) h
  have hj: "Group_renderHeader t g cs colIndex sort_id descending ! Suc j = None" by simp
  from nth_c [OF assms(2)] assms(3) c
  have cj: "Group_renderCell g cs row rowIndex colIndex ! j = None" by simp
  from h c span len hj nth_h len_c cj nth_c show ?thesis by blast
qed

text \<open>
  A group of three columns whose middle one is hidden: the span is 3, and the third
  column is rendered with group index 2.
\<close>

theorem hidden_column_witness:
  "c_hidden (a_column ''B'' None True) \<and>
   Column_renderHeader (a_table (ArrayData []) None False [] Map.empty)
     (a_column ''B'' None True) 0 None False None None = None \<and>
   Column_renderCell (a_column ''B'' None True) (Some 7) (Pos 0) 0 None None = None \<and>
   (\<exists>th. main_cell (Multi (Group_renderHeader (a_table (ArrayData []) None False [] Map.empty)
            (a_group None None)
            [a_column ''A'' None False, a_column ''B'' None True, a_column ''C'' None False]
            0 None False)) = Some th \<and>
         e_attrs th ''colSpan'' = Some (Num 3)) \<and>
   Group_renderHeader (a_table (ArrayData []) None False [] Map.empty) (a_group None None)
     [a_column ''A'' None False, a_column ''B'' None True, a_column ''C'' None False]
     0 None False ! 3 =
   Column_renderHeader (a_table (ArrayData []) None False [] Map.empty)
     (a_column ''C'' None False) 0 None False (Some 2) (Some Map.empty)"
proof -
  let ?t = "a_table (ArrayData []) None False [] Map.empty"
  let ?p = "a_column ''B'' None True"
  let ?cs = "[a_column ''A'' None False, ?p, a_column ''C'' None False]"
  let ?g = "a_group None None"
  have hid: "c_hidden ?p" by (simp add: a_column_def)
  have j: "(1::nat) < length ?cs" "?cs ! 1 = ?p" by simp_all
  note w = hidden_column [OF hid j, of ?t 0 None False None None "Some 7" "Pos 0" None ?g]
  have sub: "g_subHeaderProps ?g x = Map.empty" for x
    by (simp add: a_group_def emptyProps_def)
  note every = w [THEN conjunct2, THEN conjunct2, THEN conjunct2, THEN conjunct2,
      THEN conjunct2, THEN conjunct1, rule_format, of 2]
  then have "Group_renderHeader ?t ?g ?cs 0 None False ! Suc 2 =
      Column_renderHeader ?t (?cs ! 2) 0 None False (Some 2)
        (Some (g_subHeaderProps ?g
           \<lparr>ha_colIndex = 0, ha_groupIndex = Some 2,
            ha_sort = isSorted (ColumnInst (?cs ! 2)) None, ha_descending = False\<rparr>))"
    by simp
  then have third: "Group_renderHeader ?t ?g ?cs 0 None False ! 3 =
      Column_renderHeader ?t (a_column ''C'' None False) 0 None False (Some 2) (Some Map.empty)"
    by (simp add: sub)
  note w1 = w [THEN conjunct1]
  note w2 = w [THEN conjunct2, THEN conjunct1]
  note w3 = w [THEN conjunct2, THEN conjunct2, THEN conjunct1]
  from w3 have span: "\<exists>th. main_cell (Multi (Group_renderHeader ?t ?g ?cs 0 None False)) = Some th \<and>
         e_attrs th ''colSpan'' = Some (Num 3)" by simp
  from hid w1 w2 span third show ?thesis by blast
qed

subsection \<open>Validation of the shape\<close>

lemma Group_callbacks_invalid:
  "e \<in> set es \<Longrightarrow> \<not> is_Column_element e \<Longrightarrow> \<exists>msg. Group_callbacks es = Inl (TypeError msg)"
proof (induction es)
  case Nil
  then show ?case by simp
next
  case (Cons x xs)
  show ?case
  proof (cases "is_Column_element x")
    case True
    then obtain p where x: "x = ColumnEl p" by (cases x) auto
    from True Cons.prems have "e \<in> set xs" by auto
    with Cons.IH Cons.prems obtain msg where "Group_callbacks xs = Inl (TypeError msg)" by blast
    with x show ?thesis by simp
  next
    case False
    then show ?thesis by (cases x) auto
  qed
qed

lemma Group_callbacks_valid:
  "list_all is_Column_element es \<Longrightarrow> \<exists>cs. Group_callbacks es = Inr cs \<and> length cs = length es"
proof (induction es)
  case Nil
  then show ?case by simp
next
  case (Cons x xs)
  then obtain p where "x = ColumnEl p" by (cases x) auto
  with Cons show ?case by auto
qed

lemma Group_child_TypeError: "Group_child e = Inl err \<Longrightarrow> \<exists>msg. err = TypeError msg"
  by (cases e) auto

lemma Group_callbacks_TypeError: "Group_callbacks es = Inl err \<Longrightarrow> \<exists>msg. err = TypeError msg"
proof (induction es)
  case Nil
  then show ?case by simp
next
  case (Cons x xs)
  show ?case
  proof (cases "Group_child x")
    case (Inl e)
    with Cons.prems have "err = e" by simp
    with Inl Group_child_TypeError show ?thesis by blast
  next
    case (Inr c)
    with Cons.prems have "Group_callbacks xs = Inl err" by (auto split: sum.splits)
    with Cons.IH show ?thesis by blast
  qed
qed

text \<open>
  C4. Constructing a group that has a (truthy) sort id and no \<^verbatim>\<open>sortMethod\<close> throws,
  whatever its children are: the error \<^verbatim>\<open>sortMethod is required for sortable <Group>\<close>
  when the children are an array of columns (a child that is not a column throws its
  TypeError first). A group with a sort id and a \<^verbatim>\<open>sortMethod\<close>, or without a sort id,
  never throws this error, and is constructed when its children are an array of
  columns.
\<close>

theorem Group_new_sortMethod_required:
  "(truthy (g_sortId p) \<and> g_sortMethod p = None \<longrightarrow>
      (\<exists>err. Group_new p c = Inl err) \<and>
      (list_all is_Column_element es \<longrightarrow>
         Group_new p (JArray es) = Inl (Error ''sortMethod is required for sortable <Group>''))) \<and>
   (\<not> (truthy (g_sortId p) \<and> g_sortMethod p = None) \<longrightarrow>
      (\<forall>msg. Group_new p c \<noteq> Inl (Error msg)) \<and>
      (list_all is_Column_element es \<longrightarrow> (\<exists>cs. Group_new p (JArray es) = Inr (GroupInst p cs))))"
proof -
  have a: "\<exists>err. Group_new p c = Inl err" if "truthy (g_sortId p) \<and> g_sortMethod p = None"
    using that by (auto simp: Group_new_def split: sum.splits)
  have b: "Group_new p (JArray es) = Inl (Error ''sortMethod is required for sortable <Group>'')"
    if "truthy (g_sortId p) \<and> g_sortMethod p = None" "list_all is_Column_element es"
    using that Group_callbacks_valid [of es] by (auto simp: Group_new_def Group_columns_def)
  have c: "Group_new p c \<noteq> Inl (Error msg)" if "\<not> (truthy (g_sortId p) \<and> g_sortMethod p = None)" for msg
    using that Group_callbacks_TypeError [of "lodash_map_values c"]
    by (auto simp: Group_new_def Group_columns_def split: sum.splits)
  have d: "\<exists>cs. Group_new p (JArray es) = Inr (GroupInst p cs)"
    if "\<not> (truthy (g_sortId p) \<and> g_sortMethod p = None)" "list_all is_Column_element es"
    using that Group_callbacks_valid [of es] by (auto simp: Group_new_def Group_columns_def)
  from a b c d show ?thesis by blast
qed

theorem Group_new_sortMethod_required_witness:
  "Group_new (a_group (Some ''g'') None) (JArray [ColumnEl (a_column ''A'' None False)]) =
     Inl (Error ''sortMethod is required for sortable <Group>'') \<and>
   (\<exists>cs. Group_new (a_group (Some ''g'') (Some flag_reading_method))
           (JArray [ColumnEl (a_column ''A'' None False)]) =
         Inr (GroupInst (a_group (Some ''g'') (Some flag_reading_method)) cs)) \<and>
   (\<exists>cs. Group_new (a_group None None) (JArray [ColumnEl (a_column ''A'' None False)]) =
         Inr (GroupInst (a_group None None) cs))"
proof -
  let ?es = "[ColumnEl (a_column ''A'' None False)]"
  have es: "list_all is_Column_element ?es" by simp
  have 1: "truthy (g_sortId (a_group (Some ''g'') None)) \<and> g_sortMethod (a_group (Some ''g'') None) = None"
    by (simp add: a_group_def)
  have 2: "\<not> (truthy (g_sortId (a_group (Some ''g'') (Some flag_reading_method))) \<and>
              g_sortMethod (a_group (Some ''g'') (Some flag_reading_method)) = None)"
    by (simp add: a_group_def)
  have 3: "\<not> (truthy (g_sortId (a_group None None)) \<and> g_sortMethod (a_group None None) = None)"
    by (simp add: a_group_def)
  from Group_new_sortMethod_required [of "a_group (Some ''g'') None" "JArray ?es" ?es] 1 es
    Group_new_sortMethod_required [of "a_group (Some ''g'') (Some flag_reading_method)" "JArray ?es" ?es] 2
    Group_new_sortMethod_required [of "a_group None None" "JArray ?es" ?es] 3
  show ?thesis by blast
qed

text \<open>
  A group handed a single child that is not wrapped in an array never sees the child
  itself: a single element is walked property by property and rejected at its first
  property, also when it is a column, and a single number calls nothing, so the group
  is constructed without columns.
\<close>

lemma Group_new_single_element:
  "Group_new p (ColumnEl c) = Inl (TypeError ''Node of type symbol not valid in <Group>'')"
  by (simp add: Group_new_def Group_columns_def)

lemma Group_new_single_number:
  "\<not> (truthy (g_sortId p) \<and> g_sortMethod p = None) \<Longrightarrow>
   Group_new p (JNumber n) = Inr (GroupInst p [])"
  by (simp add: Group_new_def Group_columns_def)

lemma updateColumns_calls_throws:
  "x \<in> set cs \<Longrightarrow> \<not> constructs x \<Longrightarrow> \<exists>err. fst (updateColumns_calls cs sm) = Inl err"
proof (induction cs arbitrary: sm)
  case Nil
  then show ?case by simp
next
  case (Cons y ys)
  show ?case
  proof (cases y)
    case Refused
    then show ?thesis by simp
  next
    case (Handed e)
    show ?thesis
    proof (cases "Table_child e")
      case (Inl err)
      with Handed show ?thesis by simp
    next
      case (Inr i)
      with Handed Cons.prems have "x \<in> set ys" by auto
      from Cons.IH [OF this Cons.prems(2)] obtain err
        where "fst (updateColumns_calls ys (registerSortColumns i sm)) = Inl err" by blast
      with Inr Handed show ?thesis by (auto split: prod.splits sum.splits)
    qed
  qed
qed

lemma updateColumns_calls_first:
  "list_all constructs pre \<Longrightarrow> Table_child e = Inl err \<Longrightarrow>
   fst (updateColumns_calls (pre @ Handed e # post) sm) = Inl err"
proof (induction pre arbitrary: sm)
  case Nil
  then show ?case by simp
next
  case (Cons x xs)
  then obtain a i where i: "x = Handed a" "Table_child a = Inr i"
    by (cases x) (auto split: sum.splits)
  from Cons have "fst (updateColumns_calls (xs @ Handed e # post) (registerSortColumns i sm)) = Inl err"
    by simp
  with i show ?case by (auto split: prod.splits sum.splits)
qed

lemma updateColumns_calls_refused:
  "list_all constructs pre \<Longrightarrow>
   fst (updateColumns_calls (pre @ Refused # post) sm) =
     Inl (Error ''Objects are not valid as a React child'')"
proof (induction pre arbitrary: sm)
  case Nil
  then show ?case by simp
next
  case (Cons x xs)
  then obtain a i where i: "x = Handed a" "Table_child a = Inr i"
    by (cases x) (auto split: sum.splits)
  from Cons have "fst (updateColumns_calls (xs @ Refused # post) (registerSortColumns i sm)) =
      Inl (Error ''Objects are not valid as a React child'')"
    by simp
  with i show ?case by (auto split: prod.splits sum.splits)
qed

lemma updateColumns_calls_returns:
  "list_all constructs cs \<Longrightarrow> \<exists>cols. fst (updateColumns_calls cs sm) = Inr cols"
proof (induction cs arbitrary: sm)
  case Nil
  then show ?case by simp
next
  case (Cons x xs)
  then obtain a i where i: "x = Handed a" "Table_child a = Inr i"
    by (cases x) (auto split: sum.splits)
  from Cons obtain cols where "fst (updateColumns_calls xs (registerSortColumns i sm)) = Inr cols"
    by auto
  with i show ?case by (auto split: prod.splits sum.splits)
qed

lemma Table_child_invalid:
  "\<not> is_Column_or_Group_element e \<Longrightarrow> \<exists>msg. Table_child e = Inl (TypeError msg)"
  by (cases e) auto

lemma fst_updateColumns:
  "fst (updateColumns c t) = fst (updateColumns_calls (Children_map_calls c) Map.empty)"
  by (simp add: updateColumns_def updateColumns_map_def split: prod.splits)

text \<open>
  C5 (amended). The \<^verbatim>\<open>Group\<close> constructor throws a TypeError when an entry of its
  children array is not a valid element of type \<^verbatim>\<open>Column\<close>, a nested \<^verbatim>\<open>Group\<close>
  included, and so does the construction of that group as a child of a table. The
  callback of \<^verbatim>\<open>Table.updateColumns\<close> throws a TypeError on every value that is not a
  \<^verbatim>\<open>Column\<close> or \<^verbatim>\<open>Group\<close> element. \<^verbatim>\<open>React.Children.map\<close> decides which children
  reach the callback: when such a value is handed to it, \<^verbatim>\<open>updateColumns\<close> throws, and
  the exception is that TypeError when the steps before it construct; a plain object
  child ends the traversal with the framework's own Error; and when every step
  constructs (functions are passed over), \<^verbatim>\<open>updateColumns\<close> returns columns.
\<close>

theorem shape_validation:
  "(e \<in> set es \<and> \<not> is_Column_element e \<longrightarrow>
      (\<exists>msg. Group_new p (JArray es) = Inl (TypeError msg)) \<and>
      (\<exists>msg. Table_child (GroupEl p (JArray es)) = Inl (TypeError msg))) \<and>
   (\<not> is_Column_or_Group_element e \<longrightarrow>
      (\<exists>msg. Table_child e = Inl (TypeError msg)) \<and>
      (Handed e \<in> set (Children_map_calls c) \<longrightarrow> (\<exists>err. fst (updateColumns c t) = Inl err)) \<and>
      (Children_map_calls c = pre @ Handed e # post \<and> list_all constructs pre \<longrightarrow>
         (\<exists>msg. fst (updateColumns c t) = Inl (TypeError msg)))) \<and>
   (Children_map_calls c = pre @ Refused # post \<and> list_all constructs pre \<longrightarrow>
      fst (updateColumns c t) = Inl (Error ''Objects are not valid as a React child'')) \<and>
   (list_all constructs (Children_map_calls c) \<longrightarrow> (\<exists>cols. fst (updateColumns c t) = Inr cols))"
proof -
  have g: "\<exists>msg. Group_new p (JArray es) = Inl (TypeError msg)"
    if "e \<in> set es" "\<not> is_Column_element e"
    using Group_callbacks_invalid [OF that] by (auto simp: Group_new_def Group_columns_def)
  have k: "\<exists>msg. Table_child e = Inl (TypeError msg)" if "\<not> is_Column_or_Group_element e"
    using that by (rule Table_child_invalid)
  have u: "\<exists>err. fst (updateColumns c t) = Inl err"
    if "\<not> is_Column_or_Group_element e" "Handed e \<in> set (Children_map_calls c)"
  proof -
    from k [OF that(1)] have "\<not> constructs (Handed e)" by auto
    from updateColumns_calls_throws [OF that(2) this, of Map.empty]
    show ?thesis by (simp add: fst_updateColumns)
  qed
  have f: "\<exists>msg. fst (updateColumns c t) = Inl (TypeError msg)"
    if "\<not> is_Column_or_Group_element e" "Children_map_calls c = pre @ Handed e # post"
      "list_all constructs pre"
  proof -
    from k [OF that(1)] obtain msg where "Table_child e = Inl (TypeError msg)" by blast
    from updateColumns_calls_first [OF that(3) this, of post Map.empty] that(2)
    show ?thesis by (simp add: fst_updateColumns)
  qed
  have r: "fst (updateColumns c t) = Inl (Error ''Objects are not valid as a React child'')"
    if "Children_map_calls c = pre @ Refused # post" "list_all constructs pre"
    using updateColumns_calls_refused [OF that(2), of post Map.empty] that(1)
    by (simp add: fst_updateColumns)
  have n: "\<exists>cols. fst (updateColumns c t) = Inr cols"
    if "list_all constructs (Children_map_calls c)"
    using updateColumns_calls_returns [OF that, of Map.empty] by (simp add: fst_updateColumns)
  from g k u f r n show ?thesis by simp
qed

text \<open>
  A group nested in a group; a text node inside a nested array between two columns of a
  table; a plain object behind a column; a function between two columns.
\<close>

theorem shape_validation_witness:
  "(\<exists>msg. Group_new (a_group None None)
            (JArray [ColumnEl (a_column ''A'' None False), GroupEl (a_group None None) (JArray [])]) =
          Inl (TypeError msg)) \<and>
   (\<exists>msg. Table_child (JString ''x'' :: (int, int) child) = Inl (TypeError msg)) \<and>
   (\<exists>msg. fst (updateColumns
            (JArray [ColumnEl (a_column ''A'' None False), JArray [JString ''x''],
                     ColumnEl (a_column ''B'' None False)])
            (a_table (ArrayData []) None False [] Map.empty)) = Inl (TypeError msg)) \<and>
   fst (updateColumns
          (JArray [ColumnEl (a_column ''A'' None False), JObject []])
          (a_table (ArrayData []) None False [] Map.empty)) =
     Inl (Error ''Objects are not valid as a React child'') \<and>
   (\<exists>cols. fst (updateColumns
            (JArray [ColumnEl (a_column ''A'' None False), JFunction,
                     ColumnEl (a_column ''B'' None False)])
            (a_table (ArrayData []) None False [] Map.empty)) = Inr cols)"
proof -
  let ?a = "ColumnEl (a_column ''A'' None False) :: (int, int) child"
  let ?b = "ColumnEl (a_column ''B'' None False) :: (int, int) child"
  let ?n = "GroupEl (a_group None None) (JArray []) :: (int, int) child"
  let ?es = "[?a, ?n]"
  let ?s = "JString ''x'' :: (int, int) child"
  let ?t = "a_table (ArrayData []) None False [] Map.empty"
  let ?c1 = "JArray [?a, JArray [?s], ?b]"
  let ?c2 = "JArray [?a, JObject []]"
  let ?c3 = "JArray [?a, JFunction, ?b]"
  have 1: "?n \<in> set ?es \<and> \<not> is_Column_element ?n" by simp
  have 2: "\<not> is_Column_or_Group_element ?s" by simp
  have pre: "list_all constructs [Handed ?a]" by simp
  have c1: "Children_map_calls ?c1 = [Handed ?a] @ Handed ?s # [Handed ?b]" by simp
  have c2: "Children_map_calls ?c2 = [Handed ?a] @ Refused # []" by simp
  have c3: "list_all constructs (Children_map_calls ?c3)" by simp
  from shape_validation [of ?n ?es "a_group None None" ?c1 ?t "[Handed ?a]" "[Handed ?b]"] 1
  have a: "\<exists>msg. Group_new (a_group None None) (JArray ?es) = Inl (TypeError msg)" by blast
  from shape_validation [of ?s "[]" "a_group None None" ?c1 ?t "[Handed ?a]" "[Handed ?b]"] 2 pre c1
  have b: "(\<exists>msg. Table_child ?s = Inl (TypeError msg)) \<and>
    (\<exists>msg. fst (updateColumns ?c1 ?t) = Inl (TypeError msg))"
    by blast
  from shape_validation [of ?s "[]" "a_group None None" ?c2 ?t "[Handed ?a]" "[]"] pre c2
  have c: "fst (updateColumns ?c2 ?t) = Inl (Error ''Objects are not valid as a React child'')"
    by blast
  from shape_validation [of ?s "[]" "a_group None None" ?c3 ?t "[]" "[]"] c3
  have d: "\<exists>cols. fst (updateColumns ?c3 ?t) = Inr cols"
    by blast
  from a b c d show ?thesis by blast
qed

text \<open>
  Children that are not valid elements and throw no TypeError: a function child of a
  table is passed over and the table has no column; a plain object child of a table
  throws the framework's Error; a number as the single child of a group leaves a group
  without columns.
\<close>

theorem shape_validation_counterexample:
  "fst (updateColumns (JArray [JFunction]) (a_table (ArrayData []) None False [] Map.empty)) =
     Inr [] \<and>
   fst (updateColumns (JArray [JObject []]) (a_table (ArrayData []) None False [] Map.empty)) =
     Inl (Error ''Objects are not valid as a React child'') \<and>
   (Group_new (a_group None None) (JNumber 5) :: error + (int, int) inst) =
     Inr (GroupInst (a_group None None) [])"
  by (simp add: updateColumns_def updateColumns_map_def Group_new_def Group_columns_def
      a_group_def)

subsection \<open>Rebuilding columns and registry\<close>

text \<open>
  C6. When the new props carry children of another identity,
  \<^verbatim>\<open>componentWillReceiveProps\<close> runs \<^verbatim>\<open>updateColumns\<close> on the new children: the
  registry afterwards is the one built from the empty registry, and the columns state
  is the new list of instances (when a child throws, the exception leaves the call and
  the columns state is the old one). When the identity is the same, the component is
  unchanged. The sort id and the descending flag are unchanged in both cases.
\<close>

theorem componentWillReceiveProps_rebuild:
  "(children_ref (props t) \<noteq> children_ref new_props \<longrightarrow>
      sortMap (snd (componentWillReceiveProps new_props t)) =
        snd (updateColumns_map (children new_props) Map.empty) \<and>
      (\<forall>cols. fst (updateColumns_map (children new_props) Map.empty) = Inr cols \<longrightarrow>
         fst (componentWillReceiveProps new_props t) = None \<and>
         s_columns (state (snd (componentWillReceiveProps new_props t))) = cols) \<and>
      (\<forall>err. fst (updateColumns_map (children new_props) Map.empty) = Inl err \<longrightarrow>
         fst (componentWillReceiveProps new_props t) = Some err \<and>
         s_columns (state (snd (componentWillReceiveProps new_props t))) = s_columns (state t))) \<and>
   (children_ref (props t) = children_ref new_props \<longrightarrow>
      componentWillReceiveProps new_props t = (None, t)) \<and>
   s_sort (state (snd (componentWillReceiveProps new_props t))) = s_sort (state t) \<and>
   s_descending (state (snd (componentWillReceiveProps new_props t))) = s_descending (state t)"
  by (auto simp: componentWillReceiveProps_def updateColumns_def split: prod.splits sum.splits)

text \<open>
  A table sorted by \<open>n\<close> with a stale registry entry \<open>old\<close> receives one sortable
  column under a new identity, and then props of its own identity.
\<close>

theorem componentWillReceiveProps_rebuild_witness:
  "children_ref (props (a_table (ArrayData []) (Some ''n'') True []
      [''old'' \<mapsto> ColumnInst (a_column ''O'' (Some ''old'') False)])) \<noteq>
     children_ref (some_props (ArrayData []) 1 (JArray [ColumnEl (a_column ''A'' (Some ''n'') False)])) \<and>
   fst (componentWillReceiveProps
      (some_props (ArrayData []) 1 (JArray [ColumnEl (a_column ''A'' (Some ''n'') False)]))
      (a_table (ArrayData []) (Some ''n'') True []
         [''old'' \<mapsto> ColumnInst (a_column ''O'' (Some ''old'') False)])) = None \<and>
   s_columns (state (snd (componentWillReceiveProps
      (some_props (ArrayData []) 1 (JArray [ColumnEl (a_column ''A'' (Some ''n'') False)]))
      (a_table (ArrayData []) (Some ''n'') True []
         [''old'' \<mapsto> ColumnInst (a_column ''O'' (Some ''old'') False)])))) =
     [ColumnInst (a_column ''A'' (Some ''n'') False)] \<and>
   sortMap (snd (componentWillReceiveProps
      (some_props (ArrayData []) 1 (JArray [ColumnEl (a_column ''A'' (Some ''n'') False)]))
      (a_table (ArrayData []) (Some ''n'') True []
         [''old'' \<mapsto> ColumnInst (a_column ''O'' (Some ''old'') False)]))) =
     [''n'' \<mapsto> ColumnInst (a_column ''A'' (Some ''n'') False)] \<and>
   s_sort (state (snd (componentWillReceiveProps
      (some_props (ArrayData []) 1 (JArray [ColumnEl (a_column ''A'' (Some ''n'') False)]))
      (a_table (ArrayData []) (Some ''n'') True []
         [''old'' \<mapsto> ColumnInst (a_column ''O'' (Some ''old'') False)])))) = Some ''n'' \<and>
   componentWillReceiveProps
      (some_props (ArrayData []) 0 (JArray [ColumnEl (a_column ''A'' (Some ''n'') False)]))
      (a_table (ArrayData []) (Some ''n'') True []
         [''old'' \<mapsto> ColumnInst (a_column ''O'' (Some ''old'') False)]) =
     (None, a_table (ArrayData []) (Some ''n'') True []
         [''old'' \<mapsto> ColumnInst (a_column ''O'' (Some ''old'') False)])"
proof -
  let ?t = "a_table (ArrayData []) (Some ''n'') True []
      [''old'' \<mapsto> ColumnInst (a_column ''O'' (Some ''old'') False)]"
  let ?c = "a_column ''A'' (Some ''n'') False"
  let ?new = "some_props (ArrayData []) 1 (JArray [ColumnEl ?c])"
  let ?same = "some_props (ArrayData []) 0 (JArray [ColumnEl ?c])"
  have refs: "children_ref (props ?t) \<noteq> children_ref ?new"
    "children_ref (props ?t) = children_ref ?same"
    by (simp_all add: a_table_def some_props_def)
  have c: "truthy (c_sortId ?c)" "c_sortMethod ?c \<noteq> None" "prop_key (c_sortId ?c) = ''n''"
    by (simp_all add: a_column_def)
  have built: "updateColumns_map (children ?new) Map.empty =
      (Inr [ColumnInst ?c], [''n'' \<mapsto> ColumnInst ?c])"
    using c by (simp add: some_props_def updateColumns_map_def Column_registerSortColumns_def
        sortMap_assign_def)
  have st: "s_sort (state ?t) = Some ''n''" by (simp add: a_table_def)
  note new = componentWillReceiveProps_rebuild [of ?t ?new]
  note same = componentWillReceiveProps_rebuild [of ?t ?same]
  from new refs(1) built
  have 1: "sortMap (snd (componentWillReceiveProps ?new ?t)) = [''n'' \<mapsto> ColumnInst ?c]"
    by simp
  from new refs(1) built
  have 2: "fst (componentWillReceiveProps ?new ?t) = None \<and>
           s_columns (state (snd (componentWillReceiveProps ?new ?t))) = [ColumnInst ?c]"
    by simp
  from new st have 3: "s_sort (state (snd (componentWillReceiveProps ?new ?t))) = Some ''n''"
    by simp
  from same refs(2) have 4: "componentWillReceiveProps ?same ?t = (None, ?t)"
    by blast
  from refs(1) 1 2 3 4 show ?thesis by blast
qed

subsection \<open>The sort registry\<close>

lemma sortMap_assign_inv:
  assumes "\<And>k i. sm k = Some i \<Longrightarrow> registered_column k i"
    and "registered_column s x"
    and "sortMap_assign s x sm k = Some i"
  shows "registered_column k i"
proof (cases "s = ''__proto__'' \<or> k \<noteq> s")
  case True
  with assms(3) have "sm k = Some i"
    by (auto simp: sortMap_assign_def split: if_splits)
  then show ?thesis by (rule assms(1))
next
  case False
  with assms(3) have "i = x" "k = s"
    by (auto simp: sortMap_assign_def split: if_splits)
  with assms(2) show ?thesis by simp
qed

lemma Column_registerSortColumns_inv:
  assumes "\<And>k i. sm k = Some i \<Longrightarrow> registered_column k i"
    and "Column_registerSortColumns p sm k = Some i"
  shows "registered_column k i"
proof (cases "truthy (c_sortId p) \<and> c_sortMethod p \<noteq> None")
  case True
  then obtain s where s: "c_sortId p = Some s" by (cases "c_sortId p") auto
  with True have reg: "registered_column s (ColumnInst p)" by simp
  from True s assms(2) have "sortMap_assign s (ColumnInst p) sm k = Some i"
    by (simp add: Column_registerSortColumns_def)
  with assms(1) reg show ?thesis by (rule sortMap_assign_inv)
next
  case False
  with assms(2) have "sm k = Some i"
    by (auto simp: Column_registerSortColumns_def)
  then show ?thesis by (rule assms(1))
qed

lemma fold_Column_registerSortColumns_inv:
  assumes "\<And>k i. sm k = Some i \<Longrightarrow> registered_column k i"
    and "fold Column_registerSortColumns cs sm k = Some i"
  shows "registered_column k i"
  using assms
proof (induction cs arbitrary: sm)
  case Nil
  then show ?case by simp
next
  case (Cons c cs)
  have "\<And>k i. Column_registerSortColumns c sm k = Some i \<Longrightarrow> registered_column k i"
    using Cons.prems(1) by (rule Column_registerSortColumns_inv)
  from Cons.IH [OF this] Cons.prems(2) show ?case by simp
qed

text \<open>
  A column with a truthy sort id (other than \<^verbatim>\<open>__proto__\<close>) and a comparator
  registers itself under the id.
\<close>

lemma Column_registers_itself:
  "truthy (c_sortId p) \<Longrightarrow> c_sortMethod p \<noteq> None \<Longrightarrow> c_sortId p \<noteq> Some ''__proto__'' \<Longrightarrow>
   Column_registerSortColumns p sm (prop_key (c_sortId p)) = Some (ColumnInst p)"
  by (cases "c_sortId p") (simp_all add: Column_registerSortColumns_def sortMap_assign_def)

text \<open>A group registers its child columns and never itself.\<close>

lemma Group_registers_children_only:
  "Group_registerSortColumns p cs sm = fold Column_registerSortColumns cs sm"
  by (simp add: Group_registerSortColumns_def Group_this_sortId_def)

lemma registerSortColumns_inv:
  assumes "\<And>k i. sm k = Some i \<Longrightarrow> registered_column k i"
    and "registerSortColumns x sm k = Some i"
  shows "registered_column k i"
proof (cases x)
  case (ColumnInst p)
  with assms(2) have "Column_registerSortColumns p sm k = Some i" by simp
  with assms(1) show ?thesis by (rule Column_registerSortColumns_inv)
next
  case (GroupInst p cs)
  with assms(2) have "fold Column_registerSortColumns cs sm k = Some i"
    by (simp add: Group_registers_children_only)
  with assms(1) show ?thesis by (rule fold_Column_registerSortColumns_inv)
qed

lemma updateColumns_calls_inv:
  assumes "\<And>k i. sm k = Some i \<Longrightarrow> registered_column k i"
    and "snd (updateColumns_calls cs sm) k = Some i"
  shows "registered_column k i"
  using assms
proof (induction cs arbitrary: sm)
  case Nil
  then show ?case by simp
next
  case (Cons c cs)
  show ?case
  proof (cases c)
    case Refused
    with Cons.prems show ?thesis by simp
  next
    case (Handed e)
    show ?thesis
    proof (cases "Table_child e")
      case (Inl err)
      with Handed Cons.prems show ?thesis by simp
    next
      case (Inr x)
      have inv: "\<And>k i. registerSortColumns x sm k = Some i \<Longrightarrow> registered_column k i"
        using Cons.prems(1) by (rule registerSortColumns_inv)
      from Inr Handed Cons.prems(2)
      have "snd (updateColumns_calls cs (registerSortColumns x sm)) k = Some i"
        by (auto split: prod.splits sum.splits)
      with Cons.IH [OF inv] show ?thesis by simp
    qed
  qed
qed

text \<open>
  Whatever the children are, every entry of the registry that \<^verbatim>\<open>updateColumns\<close>
  builds is a column with a truthy sort id equal to its key and with a comparator; no
  entry is a group.
\<close>

lemma updateColumns_registry:
  "sortMap (snd (updateColumns c t)) k = Some i \<Longrightarrow> registered_column k i"
proof -
  assume "sortMap (snd (updateColumns c t)) k = Some i"
  then have "snd (updateColumns_calls (Children_map_calls c) Map.empty) k = Some i"
    by (simp add: updateColumns_def updateColumns_map_def split: prod.splits)
  then show ?thesis by (rule updateColumns_calls_inv [rotated]) simp
qed

text \<open>
  C1, the code on a table whose only child is a sortable group of two columns. The
  registry is specified to map the sort id of every group that has one to that group.
  Here a group with sort id \<open>g\<close> and a comparator is constructed and becomes the
  table's column, and the registry has no entry for \<open>g\<close>.
\<close>

theorem sortable_group_not_registered:
  "fst (updateColumns
          (JArray [GroupEl (a_group (Some ''g'') (Some flag_reading_method))
             (JArray [ColumnEl (a_column ''A'' None False), ColumnEl (a_column ''B'' None False)])])
          (a_table (ArrayData []) None False [] Map.empty)) =
     Inr [GroupInst (a_group (Some ''g'') (Some flag_reading_method))
            [a_column ''A'' None False, a_column ''B'' None False]] \<and>
   sortMap (snd (updateColumns
          (JArray [GroupEl (a_group (Some ''g'') (Some flag_reading_method))
             (JArray [ColumnEl (a_column ''A'' None False), ColumnEl (a_column ''B'' None False)])])
          (a_table (ArrayData []) None False [] Map.empty))) ''g'' = None"
  by (simp add: updateColumns_def updateColumns_map_def Group_new_def Group_columns_def
      a_group_def a_column_def Group_registerSortColumns_def Group_this_sortId_def
      Column_registerSortColumns_def)

subsection \<open>The layout of the header\<close>

lemma Column_renderHeader_rowSpan:
  "\<not> c_hidden p \<Longrightarrow>
   \<exists>th. Column_renderHeader t p i s d None None = Some th \<and> e_attrs th ''rowSpan'' = Some (Num 2)"
  by (simp add: Column_renderHeader_def Let_def)

lemma main_cell_renderHeader_Group:
  "\<exists>th. main_cell (renderHeader t (GroupInst g cs) i s d) = Some th \<and>
        e_attrs th ''colSpan'' = Some (Num (int (length cs)))"
  by (simp add: Group_renderHeader_def Let_def)

lemma sub_cells_renderHeader:
  "sub_cells (renderHeader t c i s d) =
     (case c of
        ColumnInst p \<Rightarrow> []
      | GroupInst g cs \<Rightarrow>
          map (\<lambda>(j, p). Column_renderHeader t p i s d (Some j)
                 (Some (g_subHeaderProps g
                    \<lparr>ha_colIndex = i, ha_groupIndex = Some j,
                     ha_sort = isSorted (ColumnInst p) s, ha_descending = d\<rparr>)))
              (enumerate 0 cs))"
  by (cases c) (simp_all add: Group_renderHeader_def Let_def)

lemma length_sub_cells_renderHeader:
  "length (sub_cells (renderHeader t c i s d)) = length (child_columns c)"
  by (cases c) (simp_all add: Group_renderHeader_def Let_def)

lemma concat_sub_cells_empty:
  "concat (map (\<lambda>(i, c). sub_cells (renderHeader t c i s d)) (enumerate n cols)) = [] \<longleftrightarrow>
   (\<forall>c \<in> set cols. child_columns c = [])"
proof (induction cols arbitrary: n)
  case Nil
  then show ?case by simp
next
  case (Cons c cols)
  have "sub_cells (renderHeader t c n s d) = [] \<longleftrightarrow> child_columns c = []"
    using length_sub_cells_renderHeader [of t c n s d] by (metis length_0_conv)
  with Cons show ?case by simp
qed

text \<open>
  C2 (amended). The main header row has one entry for every child of the table. The
  entry of a visible top-level column is its header cell with \<^verbatim>\<open>rowSpan\<close> 2, and a
  top-level column adds nothing to the sub-header row. The entry of a group is one cell
  with \<^verbatim>\<open>colSpan\<close> equal to the number of its child columns, and the sub-header row
  holds, group after group, what the child columns render as headers, each with its
  group index. The sub-header row is omitted (\<^verbatim>\<open>null\<close>) exactly when no group has a
  child column, hidden ones counted.
\<close>

theorem header_layout:
  "length (r_cells (h_main (Table_renderHeader t))) = length (s_columns (state t)) \<and>
   (\<forall>i < length (s_columns (state t)). \<forall>p.
      s_columns (state t) ! i = ColumnInst p \<and> \<not> c_hidden p \<longrightarrow>
        (\<exists>th. r_cells (h_main (Table_renderHeader t)) ! i = Some th \<and>
              e_attrs th ''rowSpan'' = Some (Num 2))) \<and>
   (\<forall>i < length (s_columns (state t)). \<forall>g cs.
      s_columns (state t) ! i = GroupInst g cs \<longrightarrow>
        (\<exists>th. r_cells (h_main (Table_renderHeader t)) ! i = Some th \<and>
              e_attrs th ''colSpan'' = Some (Num (int (length cs))))) \<and>
   (case h_sub (Table_renderHeader t) of None \<Rightarrow> [] | Some r \<Rightarrow> r_cells r) =
     concat (map (\<lambda>(i, c). case c of
                    ColumnInst p \<Rightarrow> []
                  | GroupInst g cs \<Rightarrow>
                      map (\<lambda>(j, p). Column_renderHeader t p i (s_sort (state t))
                             (s_descending (state t)) (Some j)
                             (Some (g_subHeaderProps g
                                \<lparr>ha_colIndex = i, ha_groupIndex = Some j,
                                 ha_sort = isSorted (ColumnInst p) (s_sort (state t)),
                                 ha_descending = s_descending (state t)\<rparr>)))
                          (enumerate 0 cs))
                 (enumerate 0 (s_columns (state t)))) \<and>
   (h_sub (Table_renderHeader t) = None \<longleftrightarrow>
      (\<forall>c \<in> set (s_columns (state t)). child_columns c = []))"
proof -
  let ?cols = "s_columns (state t)"
  let ?s = "s_sort (state t)"
  let ?d = "s_descending (state t)"
  let ?H = "Table_renderHeader t"
  have main: "r_cells (h_main ?H) = map (\<lambda>(i, c). main_cell (renderHeader t c i ?s ?d)) (enumerate 0 ?cols)"
    by (simp add: Table_renderHeader_def renderMainHeader_def header_cells_of_def Let_def
        split_def comp_def)
  have len: "length (r_cells (h_main ?H)) = length ?cols"
    by (simp add: main)
  have nth: "r_cells (h_main ?H) ! i = main_cell (renderHeader t (?cols ! i) i ?s ?d)"
    if "i < length ?cols" for i
    using that by (simp add: main nth_enumerate_eq)
  have col: "\<exists>th. r_cells (h_main ?H) ! i = Some th \<and> e_attrs th ''rowSpan'' = Some (Num 2)"
    if "i < length ?cols" "?cols ! i = ColumnInst p" "\<not> c_hidden p" for i p
    using nth [OF that(1)] that(2) Column_renderHeader_rowSpan [OF that(3), of t i ?s ?d]
    by simp
  have grp: "\<exists>th. r_cells (h_main ?H) ! i = Some th \<and>
                  e_attrs th ''colSpan'' = Some (Num (int (length cs)))"
    if "i < length ?cols" "?cols ! i = GroupInst g cs" for i g cs
    using nth [OF that(1)] that(2) main_cell_renderHeader_Group [of t g cs i ?s ?d]
    by simp
  let ?sub = "concat (map (\<lambda>(i, c). sub_cells (renderHeader t c i ?s ?d)) (enumerate 0 ?cols))"
  have sub_eq: "concat (map sub_cells (header_cells_of t)) = ?sub"
    by (simp add: header_cells_of_def split_def comp_def)
  have "(case h_sub ?H of None \<Rightarrow> [] | Some r \<Rightarrow> r_cells r) =
          concat (map sub_cells (header_cells_of t))"
    by (simp add: Table_renderHeader_def renderSubHeader_def Let_def)
  then have sub: "(case h_sub ?H of None \<Rightarrow> [] | Some r \<Rightarrow> r_cells r) = ?sub"
    unfolding sub_eq .
  have "h_sub ?H = None \<longleftrightarrow> concat (map sub_cells (header_cells_of t)) = []"
    by (simp add: Table_renderHeader_def renderSubHeader_def Let_def)
  then have none: "h_sub ?H = None \<longleftrightarrow> ?sub = []"
    unfolding sub_eq .
  have sub': "(case h_sub ?H of None \<Rightarrow> [] | Some r \<Rightarrow> r_cells r) =
     concat (map (\<lambda>(i, c). case c of
                    ColumnInst p \<Rightarrow> []
                  | GroupInst g cs \<Rightarrow>
                      map (\<lambda>(j, p). Column_renderHeader t p i ?s ?d (Some j)
                             (Some (g_subHeaderProps g
                                \<lparr>ha_colIndex = i, ha_groupIndex = Some j,
                                 ha_sort = isSorted (ColumnInst p) ?s,
                                 ha_descending = ?d\<rparr>)))
                          (enumerate 0 cs))
                 (enumerate 0 ?cols))"
    unfolding sub sub_cells_renderHeader ..
  from len col grp sub' none concat_sub_cells_empty [of t ?s ?d 0 ?cols]
  show ?thesis by blast
qed

text \<open>
  A table of a visible column and a group of two columns, the second one hidden.
\<close>

theorem header_layout_witness:
  "(\<exists>th. r_cells (h_main (Table_renderHeader (a_table (ArrayData []) None False
       [ColumnInst (a_column ''A'' None False),
        GroupInst (a_group None None) [a_column ''B'' None False, a_column ''C'' None True]]
       Map.empty))) ! 0 = Some th \<and> e_attrs th ''rowSpan'' = Some (Num 2)) \<and>
   (\<exists>th. r_cells (h_main (Table_renderHeader (a_table (ArrayData []) None False
       [ColumnInst (a_column ''A'' None False),
        GroupInst (a_group None None) [a_column ''B'' None False, a_column ''C'' None True]]
       Map.empty))) ! 1 = Some th \<and> e_attrs th ''colSpan'' = Some (Num 2)) \<and>
   h_sub (Table_renderHeader (a_table (ArrayData []) None False
       [ColumnInst (a_column ''A'' None False),
        GroupInst (a_group None None) [a_column ''B'' None False, a_column ''C'' None True]]
       Map.empty)) \<noteq> None"
proof -
  let ?a = "a_column ''A'' None False"
  let ?cs = "[a_column ''B'' None False, a_column ''C'' None True]"
  let ?cols = "[ColumnInst ?a, GroupInst (a_group None None) ?cs]"
  let ?t = "a_table (ArrayData []) None False ?cols Map.empty"
  have cols: "s_columns (state ?t) = ?cols" by (simp add: a_table_def)
  have vis: "\<not> c_hidden ?a" by (simp add: a_column_def)
  note w = header_layout [of ?t]
  note w_col = w [THEN conjunct2, THEN conjunct1, rule_format, of 0 ?a]
  note w_grp = w [THEN conjunct2, THEN conjunct2, THEN conjunct1, rule_format,
      of 1 "a_group None None" ?cs]
  note w_sub = w [THEN conjunct2, THEN conjunct2, THEN conjunct2, THEN conjunct2]
  from w_col cols vis
  have 1: "\<exists>th. r_cells (h_main (Table_renderHeader ?t)) ! 0 = Some th \<and>
                e_attrs th ''rowSpan'' = Some (Num 2)" by simp
  from w_grp cols
  have 2: "\<exists>th. r_cells (h_main (Table_renderHeader ?t)) ! 1 = Some th \<and>
                e_attrs th ''colSpan'' = Some (Num 2)" by simp
  from w_sub cols have 3: "h_sub (Table_renderHeader ?t) \<noteq> None" by simp
  from 1 2 3 show ?thesis by blast
qed

text \<open>
  A group whose only child column is hidden: no child of the table produces a
  sub-header cell, and the sub-header row is rendered, holding one \<^verbatim>\<open>null\<close>.
\<close>

theorem sub_header_counterexample:
  "map_option r_cells
     (h_sub (Table_renderHeader
        (a_table (ArrayData []) None False
           [GroupInst (a_group None None) [a_column ''A'' None True]] Map.empty))) =
   Some [None]"
  by (simp add: Table_renderHeader_def renderSubHeader_def header_cells_of_def a_table_def
      Group_renderHeader_def Column_renderHeader_def a_column_def Let_def)

subsection \<open>Sorted row order\<close>







text \<open>Consequences of the language's condition on a comparator.\<close>

lemma cc_refl: "consistent_comparator f xs \<Longrightarrow> x \<in> set xs \<Longrightarrow> f x x = 0"
  unfolding consistent_comparator_def by blast

lemma cc_sym:
  "consistent_comparator f xs \<Longrightarrow> x \<in> set xs \<Longrightarrow> y \<in> set xs \<Longrightarrow> f x y = 0 \<Longrightarrow> f y x = 0"
  unfolding consistent_comparator_def by blast



lemma cc_trans_greater:
  "consistent_comparator f xs \<Longrightarrow> x \<in> set xs \<Longrightarrow> y \<in> set xs \<Longrightarrow> z \<in> set xs \<Longrightarrow>
   f x y > 0 \<Longrightarrow> f y z > 0 \<Longrightarrow> f x z > 0"
  unfolding consistent_comparator_def by blast


lemma cc_greater_less:
  assumes "consistent_comparator f xs" "x \<in> set xs" "y \<in> set xs" "f x y > 0"
  shows "f y x < 0"
proof (rule ccontr)
  assume "\<not> f y x < 0"
  then consider "f y x = 0" | "f y x > 0" by linarith
  then show False
  proof cases
    case 1
    from cc_sym [OF assms(1) assms(3) assms(2) 1] assms(4) show False by simp
  next
    case 2
    from cc_trans_greater [OF assms(1) assms(2) assms(3) assms(2) assms(4) 2]
      cc_refl [OF assms(1) assms(2)] show False by simp
  qed
qed




text \<open>
  Every sort that sorts as specified returns a list ordered by a consistent comparison.
\<close>

lemma specified_sort_ordered:
  assumes "sorts_as_specified srt"
  shows "\<exists>ys. srt (\<lambda>x y. Inr (f x y)) xs = Inr ys \<and> mset ys = mset xs \<and>
           (consistent_comparator f xs \<longrightarrow> ordered_by f ys)"
proof -
  from assms obtain ys where ys: "srt (\<lambda>x y. Inr (f x y)) xs = Inr ys"
    and ms: "mset ys = mset xs"
    and so: "consistent_comparator f xs \<longrightarrow> sorted_wrt (\<lambda>x y. \<not> f y x < 0) ys"
    unfolding sorts_as_specified_def by blast
  have "ordered_by f ys" if c: "consistent_comparator f xs"
  proof -
    from ms have "set_mset (mset ys) = set_mset (mset xs)" by simp
    then have eq: "set ys = set xs" by simp
    from so c have s: "sorted_wrt (\<lambda>x y. \<not> f y x < 0) ys" by simp
    have "f x y \<le> 0" if "x \<in> set ys" "y \<in> set ys" "\<not> f y x < 0" for x y
    proof -
      from that(3) consider "f y x = 0" | "f y x > 0" by linarith
      then show ?thesis
      proof cases
        case 1
        from cc_sym [OF c _ _ 1] that eq show ?thesis by simp
      next
        case 2
        from cc_greater_less [OF c _ _ 2] that eq show ?thesis by simp
      qed
    qed
    with s have "sorted_wrt (\<lambda>x y. f x y \<le> 0) ys" by (rule sorted_wrt_mono_rel [rotated])
    then show ?thesis by (simp add: ordered_by_def)
  qed
  with ys ms show ?thesis by blast
qed

lemma Column_sort_row_cmp:
  "inst_sortMethod column = Some m \<Longrightarrow>
   (\<lambda>a b. Column_sort column (data_at (data (props t)) a) (data_at (data (props t)) b)
            (s_descending (state t))) =
   (\<lambda>a b. Inr (row_cmp t m a b))"
  by (simp add: Column_sort_def row_cmp_def)





text \<open>
  A column registered under the key \<^verbatim>\<open>hasOwnProperty\<close> makes \<^verbatim>\<open>sortedDataIndexes\<close>
  throw, whatever the sort state is.
\<close>

lemma sortedDataIndexes_hasOwnProperty:
  "sortMap t ''hasOwnProperty'' = Some c \<Longrightarrow>
   sortedDataIndexes srt t = Inl (TypeError ''this.sortMap.hasOwnProperty is not a function'')"
  by (simp add: sortedDataIndexes_def)



text \<open>
  A comparison that is positive on every pair orders no list of two or more elements,
  so with the comparator \<open>always_after\<close> registered no sort that sorts as specified
  returns the indexes of two rows ordered by it.
\<close>

lemma not_ordered_by_positive:
  assumes "\<And>x y. f x y > 0" and "2 \<le> length ys"
  shows "\<not> ordered_by f ys"
proof -
  from assms(2) obtain a b zs where ys: "ys = a # b # zs"
    by (cases ys; cases "tl ys") auto
  from assms(1) [of a b] show ?thesis by (simp add: ys ordered_by_def)
qed

lemma always_after_never_ordered:
  assumes "sorts_as_specified srt"
  shows "\<exists>ys. sortedDataIndexes srt (a_table (ArrayData [3, 1]) (Some ''n'') False []
            [''n'' \<mapsto> ColumnInst ((a_column ''A'' (Some ''n'') False)
               \<lparr>c_sortMethod := Some always_after\<rparr>)]) = Inr ys \<and>
          \<not> ordered_by (row_cmp (a_table (ArrayData [3, 1]) (Some ''n'') False []
            [''n'' \<mapsto> ColumnInst ((a_column ''A'' (Some ''n'') False)
               \<lparr>c_sortMethod := Some always_after\<rparr>)]) always_after) ys"
proof -
  let ?c = "ColumnInst ((a_column ''A'' (Some ''n'') False)\<lparr>c_sortMethod := Some always_after\<rparr>)"
  let ?t = "a_table (ArrayData [3, 1]) (Some ''n'') False [] [''n'' \<mapsto> ?c]"
  have m: "inst_sortMethod ?c = Some always_after" by simp
  have idx: "data_indexes (data (props ?t)) = [Pos 0, Pos 1]"
    by (simp add: a_table_def some_props_def upt_rec)
  have "sortedDataIndexes srt ?t =
      srt (\<lambda>a b. Column_sort ?c (data_at (data (props ?t)) a) (data_at (data (props ?t)) b)
             (s_descending (state ?t))) (data_indexes (data (props ?t)))"
    by (simp add: sortedDataIndexes_def a_table_def)
  then have run: "sortedDataIndexes srt ?t =
      srt (\<lambda>a b. Inr (row_cmp ?t always_after a b)) [Pos 0, Pos 1]"
    unfolding Column_sort_row_cmp [OF m] idx .
  from specified_sort_ordered [OF assms, of "row_cmp ?t always_after" "[Pos 0, Pos 1]"]
  obtain ys where ys: "srt (\<lambda>a b. Inr (row_cmp ?t always_after a b)) [Pos 0, Pos 1] = Inr ys"
    and ms: "mset ys = mset [Pos 0, Pos 1]" by blast
  from ms have "size (mset ys) = size (mset [Pos 0, Pos 1])" by simp
  then have len: "2 \<le> length ys" by simp
  have pos: "row_cmp ?t always_after x y > 0" for x y
    by (simp add: row_cmp_def always_after_def a_table_def)
  from not_ordered_by_positive [of "row_cmp ?t always_after" ys, OF pos len] run ys
  show ?thesis by simp
qed



end
